theory Spec2Isabelle
  imports Main "HOL-Library.AList" "HOL-Library.List_Lexorder" "HOL-Library.Char_ord"
begin

section \<open>Python values and exceptions\<close>

text \<open>
  The two source files are \<^verbatim>\<open>hmc_profile_diff.py\<close> (the script: fail-over loop over the
  HMCs, return-code handling, padding and table generation) and
  \<^verbatim>\<open>common/hmc_lpar_attribs.py\<close> (class \<^verbatim>\<open>HMC\<close>: logon, logoff, get_lpar_config).

  Every way in which the Python leaves a function other than by \<^verbatim>\<open>return\<close> is a value of
  \<open>error\<close>: \<^verbatim>\<open>sys.exit(n)\<close> raises SystemExit carrying \<open>Some n\<close>, \<^verbatim>\<open>sys.exit()\<close>
  carries \<open>None\<close>; the others are the uncaught exceptions of the operations used.
\<close>

datatype error =
    SystemExit "int option"
  | AttributeError
  | IndexError
  | KeyError
  | ParseError
  | ConnectionError

text \<open>
  The values stored in a profile dictionary are the \<^verbatim>\<open>.text\<close> of an XML element (a
  \<^verbatim>\<open>str\<close> or \<^verbatim>\<open>None\<close>) or \<^verbatim>\<open>None\<close> itself: \<open>string option\<close>. A \<^verbatim>\<open>dict\<close> is an
  association list in insertion order; \<^verbatim>\<open>d[k] = v\<close> replaces the value of an existing key
  in place and appends a new key, which is what \<open>AList.update\<close> does.
\<close>

type_synonym pyvalue = "string option"
type_synonym pydict = "(string \<times> pyvalue) list"

definition dict_keys :: "pydict \<Rightarrow> string list" where
  "dict_keys d = map fst d"

definition getitem :: "pydict \<Rightarrow> string \<Rightarrow> error + pyvalue" where
  "getitem d k = (case map_of d k of None \<Rightarrow> Inl KeyError | Some v \<Rightarrow> Inr v)"

definition setitem :: "pydict \<Rightarrow> string \<Rightarrow> pyvalue \<Rightarrow> pydict" where
  "setitem d k v = AList.update k v d"

text \<open>\<^verbatim>\<open>f'{v}'\<close>: a string is itself, \<^verbatim>\<open>None\<close> is printed as \<^verbatim>\<open>None\<close>.\<close>

definition fmt :: "pyvalue \<Rightarrow> string" where
  "fmt v = (case v of None \<Rightarrow> ''None'' | Some s \<Rightarrow> s)"

text \<open>\<^verbatim>\<open>f'{index}'\<close> for a non-negative integer: its decimal digits.\<close>

fun str_nat :: "nat \<Rightarrow> string" where
  "str_nat n =
     (if n < 10 then [''0123456789'' ! n]
      else str_nat (n div 10) @ [''0123456789'' ! (n mod 10)])"

declare str_nat.simps [simp del]

text \<open>
  \<^verbatim>\<open>s.startswith(p)\<close>, \<^verbatim>\<open>s.split(sep, 1)\<close>, \<^verbatim>\<open>s.rsplit(sep, 1)\<close> for a one-character
  separator, and \<^verbatim>\<open>xs[1]\<close>, which raises IndexError on a list shorter than two.
\<close>

definition startswith :: "string \<Rightarrow> string \<Rightarrow> bool" where
  "startswith s p = (take (length p) s = p)"

definition split1 :: "char \<Rightarrow> string \<Rightarrow> string list" where
  "split1 sep s =
     (if sep \<in> set s
      then [takeWhile (\<lambda>c. c \<noteq> sep) s, tl (dropWhile (\<lambda>c. c \<noteq> sep) s)]
      else [s])"

definition rsplit1 :: "char \<Rightarrow> string \<Rightarrow> string list" where
  "rsplit1 sep s =
     (if sep \<in> set s
      then [rev (tl (dropWhile (\<lambda>c. c \<noteq> sep) (rev s))), rev (takeWhile (\<lambda>c. c \<noteq> sep) (rev s))]
      else [s])"

definition item1 :: "'a list \<Rightarrow> error + 'a" where
  "item1 xs = (case xs of x # y # ys \<Rightarrow> Inr y | _ \<Rightarrow> Inl IndexError)"

section \<open>The comparison of two profile dictionaries (hmc_profile_diff.py, lines 142-176)\<close>

text \<open>
  Lines 143-150. \<^verbatim>\<open>for k in allkeys\<close> runs over a Python set, in an order the language
  does not fix, so \<open>pad\<close> takes the order as a list; \<open>pad_lookup1\<close> and \<open>pad_lookup2\<close>
  below show that the contents of the padded dictionaries do not depend on it.
\<close>

definition missing :: pyvalue where
  "missing = Some ''missing''"

definition pad_step :: "string \<Rightarrow> pydict \<times> pydict \<Rightarrow> pydict \<times> pydict" where
  "pad_step k dd =
     (let lpar1_data = fst dd; lpar2_data = snd dd;
          lpar1_data = (if k \<notin> set (dict_keys lpar1_data)
                        then setitem lpar1_data k missing else lpar1_data);
          lpar2_data = (if k \<notin> set (dict_keys lpar2_data)
                        then setitem lpar2_data k missing else lpar2_data)
      in (lpar1_data, lpar2_data))"

definition pad :: "string list \<Rightarrow> pydict \<Rightarrow> pydict \<Rightarrow> pydict \<times> pydict" where
  "pad allkeys lpar1_data lpar2_data = fold pad_step allkeys (lpar1_data, lpar2_data)"

text \<open>Line 153: \<^verbatim>\<open>samevalues = [k for k in lpar1_data if lpar1_data[k] == lpar2_data[k]]\<close>.\<close>

fun samevalues :: "string list \<Rightarrow> pydict \<Rightarrow> pydict \<Rightarrow> error + string list" where
  "samevalues [] lpar1_data lpar2_data = Inr []"
| "samevalues (k # ks) lpar1_data lpar2_data =
     (case getitem lpar1_data k of Inl e \<Rightarrow> Inl e | Inr v1 \<Rightarrow>
      (case getitem lpar2_data k of Inl e \<Rightarrow> Inl e | Inr v2 \<Rightarrow>
       (case samevalues ks lpar1_data lpar2_data of Inl e \<Rightarrow> Inl e | Inr same \<Rightarrow>
        Inr (if v1 = v2 then k # same else same))))"

text \<open>
  A row of the table is what \<^verbatim>\<open>difftable.add_row\<close> receives: the display name and the two
  values, each wrapped in the colour markup that says whether the row matches.
\<close>

type_synonym row = "string \<times> string \<times> string"

definition markup :: "string \<Rightarrow> string \<Rightarrow> string" where
  "markup colour s = ''['' @ colour @ '']'' @ s @ ''[/'' @ colour @ '']''"

definition styled_row :: "string \<Rightarrow> string \<Rightarrow> pydict \<Rightarrow> pydict \<Rightarrow> string \<Rightarrow> error + row" where
  "styled_row colour k_printname lpar1_data lpar2_data k =
     (case getitem lpar1_data k of Inl e \<Rightarrow> Inl e | Inr v1 \<Rightarrow>
      (case getitem lpar2_data k of Inl e \<Rightarrow> Inl e | Inr v2 \<Rightarrow>
       Inr (k_printname, markup colour (fmt v1), markup colour (fmt v2))))"

definition primarykeys :: "string list" where
  "primarykeys = [''General'', ''Processor'', ''Memory'', ''Network'', ''vFC'', ''vSCSI'']"

text \<open>Lines 164-167.\<close>

definition k_printname :: "string \<Rightarrow> string \<Rightarrow> error + string" where
  "k_printname primarykey k =
     (if primarykey \<in> set [''Network'', ''vFC'', ''vSCSI'']
      then item1 (split1 CHR ''_'' k)
      else item1 (rsplit1 CHR ''_'' k))"

text \<open>Lines 169-176: the rows (none or one) added for the key \<open>k\<close>.\<close>

definition add_rows ::
  "bool \<Rightarrow> string list \<Rightarrow> pydict \<Rightarrow> pydict \<Rightarrow> string \<Rightarrow> string \<Rightarrow> row list \<Rightarrow> error + row list" where
  "add_rows diffonly same lpar1_data lpar2_data name k difftable =
     (if diffonly then
        (if k \<notin> set same
         then (case styled_row ''red'' name lpar1_data lpar2_data k of
                 Inl e \<Rightarrow> Inl e | Inr r \<Rightarrow> Inr (difftable @ [r]))
         else Inr difftable)
      else
        (if k \<in> set same
         then (case styled_row ''green'' name lpar1_data lpar2_data k of
                 Inl e \<Rightarrow> Inl e | Inr r \<Rightarrow> Inr (difftable @ [r]))
         else (case styled_row ''red'' name lpar1_data lpar2_data k of
                 Inl e \<Rightarrow> Inl e | Inr r \<Rightarrow> Inr (difftable @ [r]))))"

text \<open>Lines 162-176: the inner loop \<^verbatim>\<open>for k in sorted(allkeys)\<close> for one primary key.\<close>

fun table_keys ::
  "bool \<Rightarrow> string list \<Rightarrow> pydict \<Rightarrow> pydict \<Rightarrow> string \<Rightarrow> string list \<Rightarrow> row list \<Rightarrow> error + row list" where
  "table_keys diffonly same lpar1_data lpar2_data primarykey [] difftable = Inr difftable"
| "table_keys diffonly same lpar1_data lpar2_data primarykey (k # ks) difftable =
     (if startswith k primarykey then
        (case k_printname primarykey k of Inl e \<Rightarrow> Inl e | Inr name \<Rightarrow>
         (case add_rows diffonly same lpar1_data lpar2_data name k difftable of
            Inl e \<Rightarrow> Inl e
          | Inr difftable' \<Rightarrow> table_keys diffonly same lpar1_data lpar2_data primarykey ks difftable'))
      else table_keys diffonly same lpar1_data lpar2_data primarykey ks difftable)"

text \<open>Lines 161-176: the outer loop \<^verbatim>\<open>for primarykey in primarykeys\<close>.\<close>

fun table_groups ::
  "bool \<Rightarrow> string list \<Rightarrow> pydict \<Rightarrow> pydict \<Rightarrow> string list \<Rightarrow> string list \<Rightarrow> row list \<Rightarrow> error + row list" where
  "table_groups diffonly same lpar1_data lpar2_data [] keys difftable = Inr difftable"
| "table_groups diffonly same lpar1_data lpar2_data (primarykey # pks) keys difftable =
     (case table_keys diffonly same lpar1_data lpar2_data primarykey keys difftable of
        Inl e \<Rightarrow> Inl e
      | Inr difftable' \<Rightarrow> table_groups diffonly same lpar1_data lpar2_data pks keys difftable')"

text \<open>
  Lines 142-176 for one pair of dictionaries. The two dictionaries are mutated in place by
  the padding, so the result holds them as they are afterwards, also when the table
  generation that follows raises.
\<close>

definition allkeys :: "pydict \<Rightarrow> pydict \<Rightarrow> string set" where
  "allkeys lpar1_data lpar2_data = set (dict_keys lpar1_data) \<union> set (dict_keys lpar2_data)"

definition compare :: "bool \<Rightarrow> pydict \<Rightarrow> pydict \<Rightarrow> (pydict \<times> pydict) \<times> (error + row list)" where
  "compare diffonly lpar1_data lpar2_data =
     (let keys = allkeys lpar1_data lpar2_data;
          padded = pad (sorted_list_of_set keys) lpar1_data lpar2_data
      in (padded,
          (case samevalues (dict_keys (fst padded)) (fst padded) (snd padded) of
             Inl e \<Rightarrow> Inl e
           | Inr same \<Rightarrow>
               table_groups diffonly same (fst padded) (snd padded) primarykeys
                 (sorted_list_of_set keys) [])))"

section \<open>What the comparison computes, in closed form\<close>

text \<open>
  The definitions of this section do not translate source code: they describe the result
  of the loops above, and \<open>compare_rows\<close> proves that the loops compute it.
  \<open>padded_value d k\<close> is the value that the key \<open>k\<close> has in \<open>d\<close> after the padding.
\<close>

definition padded_value :: "pydict \<Rightarrow> string \<Rightarrow> pyvalue" where
  "padded_value d k = (case map_of d k of None \<Rightarrow> missing | Some v \<Rightarrow> v)"

text \<open>
  The display name of a key that contains an underscore: for the adapter groups what
  follows the first underscore, for the other groups what follows the last one.
\<close>

definition display_name :: "string \<Rightarrow> string \<Rightarrow> string" where
  "display_name primarykey k =
     (if primarykey \<in> set [''Network'', ''vFC'', ''vSCSI'']
      then tl (dropWhile (\<lambda>c. c \<noteq> CHR ''_'') k)
      else rev (takeWhile (\<lambda>c. c \<noteq> CHR ''_'') (rev k)))"

definition row_of :: "pydict \<Rightarrow> pydict \<Rightarrow> string \<Rightarrow> string \<Rightarrow> row" where
  "row_of d1 d2 primarykey k =
     (let colour = (if padded_value d1 k = padded_value d2 k then ''green'' else ''red'')
      in (display_name primarykey k,
          markup colour (fmt (padded_value d1 k)),
          markup colour (fmt (padded_value d2 k))))"

text \<open>The keys that get a row under one primary key, in the order of the rows.\<close>

definition shown_keys :: "bool \<Rightarrow> pydict \<Rightarrow> pydict \<Rightarrow> string \<Rightarrow> string list \<Rightarrow> string list" where
  "shown_keys diffonly d1 d2 primarykey ks =
     filter (\<lambda>k. startswith k primarykey \<and>
                 (if diffonly then padded_value d1 k \<noteq> padded_value d2 k else True)) ks"

definition spec_rows :: "bool \<Rightarrow> pydict \<Rightarrow> pydict \<Rightarrow> string list \<Rightarrow> string list \<Rightarrow> row list" where
  "spec_rows diffonly a b pks ks =
     concat (map (\<lambda>pk. map (row_of a b pk) (shown_keys diffonly a b pk ks)) pks)"

text \<open>
  Some key starts with a primary key and holds no underscore: \<^verbatim>\<open>split\<close> returns one
  element for it and \<^verbatim>\<open>[1]\<close> raises IndexError.
\<close>

definition unprintable :: "string list \<Rightarrow> string list \<Rightarrow> bool" where
  "unprintable pks ks =
     list_ex (\<lambda>k. list_ex (\<lambda>pk. startswith k pk) pks \<and> CHR ''_'' \<notin> set k) ks"

text \<open>A row is marked as matching when its cells carry the green markup.\<close>

definition row_matched :: "row \<Rightarrow> bool" where
  "row_matched r = startswith (fst (snd r)) ''[green]''"

section \<open>The HMC as the program sees it\<close>

text \<open>
  An \<^verbatim>\<open>xml.etree.ElementTree\<close> element: its tag (with the namespace in braces), its
  attributes, its text (\<^verbatim>\<open>None\<close> when the element has none) and its children.
\<close>

datatype xml =
  Element (tag: string) (attrib_of: "(string \<times> string) list") (text_of: "string option")
    (children: "xml list")

text \<open>\<^verbatim>\<open>e.iter()\<close>: the element and its descendants in document order.\<close>

fun iter :: "xml \<Rightarrow> xml list" where
  "iter (Element t a x cs) = Element t a x cs # concat (map iter cs)"

text \<open>
  The namespace map \<^verbatim>\<open>ns\<close> of \<^verbatim>\<open>get_lpar_config\<close> and the tag that the path
  \<^verbatim>\<open>ns1:name\<close> selects.
\<close>

definition ns1 :: string where
  "ns1 = ''http://www.ibm.com/xmlns/systems/power/firmware/uom/mc/2012_10/''"

definition qname :: "string \<Rightarrow> string" where
  "qname name = ''{'' @ ns1 @ ''}'' @ name"

text \<open>
  \<^verbatim>\<open>e.findall('.//ns1:name', ns)\<close>: the descendants of \<open>e\<close> (not \<open>e\<close> itself) with
  that tag, in document order; \<^verbatim>\<open>e.find('.//ns1:name', ns)\<close>: the first of them or
  \<^verbatim>\<open>None\<close>; \<^verbatim>\<open>e.find('ns1:name', ns)\<close>: the first child with that tag or \<^verbatim>\<open>None\<close>.
\<close>

definition findall_desc :: "xml \<Rightarrow> string \<Rightarrow> xml list" where
  "findall_desc e name = filter (\<lambda>d. tag d = qname name) (concat (map iter (children e)))"

definition find_desc :: "xml \<Rightarrow> string \<Rightarrow> xml option" where
  "find_desc e name = (case findall_desc e name of [] \<Rightarrow> None | d # ds \<Rightarrow> Some d)"

definition find_child :: "xml \<Rightarrow> string \<Rightarrow> xml option" where
  "find_child e name = List.find (\<lambda>d. tag d = qname name) (children e)"

text \<open>
  A request as \<^verbatim>\<open>requests.put/get/delete\<close> receives it (\<^verbatim>\<open>verify=False\<close> throughout).
  A header value is the session token where the code passes \<^verbatim>\<open>self.token\<close>, which is
  \<^verbatim>\<open>None\<close> when the token element of the logon response had no text.
\<close>

datatype http_method = PUT | GET | DELETE

record request =
  meth :: http_method
  url :: string
  headers :: "(string \<times> string option) list"
  payload :: string

record response =
  status_code :: int
  response_text :: string

text \<open>
  The environment of a run: the HMCs, a state machine of any state type \<open>'w\<close> that answers
  a request with a response or with none (then \<^verbatim>\<open>requests\<close> raises ConnectionError),
  and the XML parser \<^verbatim>\<open>ET.fromstring\<close>, which returns the root element or raises
  ParseError (\<open>None\<close>).
\<close>

record 'w env =
  serve :: "'w \<Rightarrow> request \<Rightarrow> response option \<times> 'w"
  fromstring :: "string \<Rightarrow> xml option"

text \<open>
  What a run has done so far: the state of the HMCs, the requests sent, in order, and
  what was printed on the console. The model is of runs with \<^verbatim>\<open>debug\<close> off: the
  \<^verbatim>\<open>console.log\<close> lines and the debug dumps of the responses are left out.
\<close>

datatype printed = Line string | Table string string "row list"

record 'w io =
  world :: 'w
  sent :: "request list"
  console :: "printed list"

definition console_print :: "string \<Rightarrow> 'w io \<Rightarrow> 'w io" where
  "console_print msg st = st\<lparr>console := console st @ [Line msg]\<rparr>"

definition send :: "'w env \<Rightarrow> request \<Rightarrow> 'w io \<Rightarrow> (error + response) \<times> 'w io" where
  "send e req st =
     (let answer = serve e (world st) req;
          st' = st\<lparr>world := snd answer, sent := sent st @ [req]\<rparr>
      in (case fst answer of None \<Rightarrow> (Inl ConnectionError, st')
                           | Some resp \<Rightarrow> (Inr resp, st')))"

text \<open>\<^verbatim>\<open>f'{rcode}'\<close> for an integer.\<close>

definition str_int :: "int \<Rightarrow> string" where
  "str_int i = (if i < 0 then ''-'' @ str_nat (nat (- i)) else str_nat (nat i))"

text \<open>\<^verbatim>\<open>xml.sax.saxutils.escape\<close>: the ampersand and the two angle brackets are replaced.\<close>

definition escape :: "string \<Rightarrow> string" where
  "escape s = concat (map (\<lambda>c. if c = CHR ''&'' then ''&amp;''
                               else if c = CHR ''>'' then ''&gt;''
                               else if c = CHR ''<'' then ''&lt;'' else [c]) s)"

section \<open>Class HMC (common/hmc_lpar_attribs.py)\<close>

text \<open>The settings of \<^verbatim>\<open>config.yaml\<close> that the two files read.\<close>

record config =
  cfg_ssl_verify :: bool
  compare_general :: bool
  compare_processors :: bool
  compare_memory :: bool
  compare_networking :: bool
  compare_virtual_fc :: bool
  compare_virtual_scsi :: bool

record HMC =
  hmc_name :: string
  token :: "string option"
  ssl_verify :: bool
  connected :: bool

text \<open>
  A method that mutates \<^verbatim>\<open>self\<close> returns the object as it is when the method is left,
  also when it is left by an exception.
\<close>

definition logon_request :: "string \<Rightarrow> string \<Rightarrow> string \<Rightarrow> request" where
  \<open>logon_request hmc user passwd =
     \<lparr>meth = PUT,
      url = ''https://'' @ hmc @ '':12443/rest/api/web/Logon'',
      headers = [(''Content-Type'',
                  Some ''application/vnd.ibm.powervm.web+xml; type=LogonRequest'')],
      payload = ''<LogonRequest schemaVersion="V1_0" xmlns="http://www.ibm.com/xmlns/systems/power/firmware/web/mc/2012_10/" xmlns:mc="http://www.ibm.com/xmlns/systems/power/firmware/web/mc/2012_10/"><UserID>''
                @ escape user @ ''</UserID><Password>'' @ escape passwd
                @ ''</Password></LogonRequest>''\<rparr>\<close>

definition logon ::
  "'w env \<Rightarrow> string \<Rightarrow> string \<Rightarrow> string \<Rightarrow> HMC \<Rightarrow> 'w io \<Rightarrow> (error + unit) \<times> HMC \<times> 'w io" where
  "logon e hmc user passwd self st =
     (if connected self
      then (Inl (SystemExit (Some 42)), self,
            console_print ''[red]Attempt to logon when already logged on. Halting![/red]'' st)
      else
        (let self = self\<lparr>hmc_name := hmc\<rparr>
         in (case send e (logon_request (hmc_name self) user passwd) st of
               (Inl err, st') \<Rightarrow> (Inl err, self, st')
             | (Inr response, st') \<Rightarrow>
                 (if status_code response \<noteq> 200
                  then (Inl (SystemExit (Some (status_code response))), self,
                        console_print ''[red]Error: HMC logon failed[/red]'' st')
                  else
                    (case fromstring e (response_text response) of
                       None \<Rightarrow> (Inl ParseError, self, st')
                     | Some xml_response \<Rightarrow>
                         (case children xml_response of
                            c0 # c1 # cs \<Rightarrow>
                              (Inr (), self\<lparr>token := text_of c1, connected := True\<rparr>, st')
                          | _ \<Rightarrow> (Inl IndexError, self, st')))))))"

text \<open>
  \<^verbatim>\<open>HMC(hostname, user, passwd)\<close>. When \<^verbatim>\<open>logon\<close> raises, no object is returned to the
  caller. The exit handler that \<^verbatim>\<open>__init__\<close> registers is \<open>cleanup\<close>; what runs after
  the program has left the loop over the HMCs is not followed further.
\<close>

definition HMC_init ::
  "'w env \<Rightarrow> config \<Rightarrow> string \<Rightarrow> string \<Rightarrow> string \<Rightarrow> 'w io \<Rightarrow> (error + HMC) \<times> 'w io" where
  "HMC_init e cfg hmc user passwd st =
     (let self = \<lparr>hmc_name = [], token = Some [], ssl_verify = cfg_ssl_verify cfg,
                  connected = False\<rparr>
      in (case logon e hmc user passwd self st of
            (Inl err, self', st') \<Rightarrow> (Inl err, st')
          | (Inr u, self', st') \<Rightarrow> (Inr self', st')))"

definition logoff_request :: "HMC \<Rightarrow> request" where
  "logoff_request self =
     \<lparr>meth = DELETE,
      url = ''https://'' @ hmc_name self @ '':12443/rest/api/web/Logon'',
      headers = [(''X-API-Session'', token self)],
      payload = []\<rparr>"

definition cleanup :: "'w env \<Rightarrow> HMC \<Rightarrow> 'w io \<Rightarrow> 'w io" where
  "cleanup e self st =
     (if connected self then snd (send e (logoff_request self) st) else st)"

text \<open>\<^verbatim>\<open>check_connected(context)\<close>: \<open>Some\<close> of the exit when there is no connection.\<close>

definition check_connected :: "HMC \<Rightarrow> string \<Rightarrow> 'w io \<Rightarrow> (error \<times> 'w io) option" where
  "check_connected self context st =
     (if connected self = False
      then Some (SystemExit (Some 42),
                 console_print (''[red]Attempt to '' @ context
                                @ '' when not logged on. Halting![/red]'') st)
      else None)"

definition logoff :: "'w env \<Rightarrow> HMC \<Rightarrow> 'w io \<Rightarrow> (error + unit) \<times> HMC \<times> 'w io" where
  "logoff e self st =
     (case check_connected self ''logoff'' st of
        Some (err, st') \<Rightarrow> (Inl err, self, st')
      | None \<Rightarrow>
          (case send e (logoff_request self) st of
             (Inl err, st') \<Rightarrow> (Inl err, self, st')
           | (Inr response, st') \<Rightarrow>
               (let rcode = status_code response
                in if rcode \<in> set [200, 202, 204]
                   then (Inr (), self\<lparr>connected := False\<rparr>, st')
                   else (Inl (SystemExit (Some rcode)), self,
                         console_print (''[red]Error: Logoff failed error code='' @ str_int rcode
                                        @ '' url='' @ url (logoff_request self)
                                        @ '' data='' @ response_text response @ ''[/red]'')
                           st'))))"

section \<open>HMC.get_lpar_config\<close>

text \<open>
  What \<^verbatim>\<open>get_lpar_config\<close> returns and what the script keeps in \<^verbatim>\<open>lpar1_data\<close> and
  \<^verbatim>\<open>lpar2_data\<close>: \<^verbatim>\<open>None\<close> before the first HMC, then a return code or a dictionary.
\<close>

datatype pyobj = PyNone | PyInt int | PyDict pydict

text \<open>The lists of attributes, lines 160-166.\<close>

definition attribs_general_general :: "string list" where
  "attribs_general_general = [''PartitionType'', ''CurrentProcessorCompatibilityMode'']"

definition attribs_default_general :: "string list" where
  "attribs_default_general = [''ProfileName'']"

definition attribs_default_processor :: "string list" where
  "attribs_default_processor =
     [''SharingMode'', ''UncappedWeight'', ''MinimumProcessingUnits'',
      ''DesiredProcessingUnits'', ''MaximumProcessingUnits'', ''MinimumVirtualProcessors'',
      ''DesiredVirtualProcessors'', ''MaximumVirtualProcessors'']"

definition attribs_default_memory :: "string list" where
  "attribs_default_memory =
     [''ActiveMemoryExpansionEnabled'', ''DesiredMemory'', ''ExpansionFactor'',
      ''MaximumMemory'', ''MinimumMemory'']"

definition attribs_default_veth :: "string list" where
  "attribs_default_veth = [''VirtualSlotNumber'', ''PortVLANID'', ''VirtualSwitchName'']"

definition attribs_default_vfc :: "string list" where
  "attribs_default_vfc = [''VirtualSlotNumber'', ''AdapterType'']"

definition attribs_default_vscsi :: "string list" where
  "attribs_default_vscsi = [''VirtualSlotNumber'', ''AdapterType'']"

text \<open>
  The loops of lines 182-186 and 209-229: for each attribute the text of the first
  descendant of that name, or \<^verbatim>\<open>None\<close> when the document has no such element.
\<close>

definition attrib_value :: "xml \<Rightarrow> string \<Rightarrow> pyvalue" where
  "attrib_value xml_response attrib =
     (case find_desc xml_response attrib of Some e \<Rightarrow> text_of e | None \<Rightarrow> None)"

fun set_attribs :: "string \<Rightarrow> xml \<Rightarrow> string list \<Rightarrow> pydict \<Rightarrow> pydict" where
  "set_attribs prefix xml_response [] lpardata = lpardata"
| "set_attribs prefix xml_response (attrib # attribs) lpardata =
     set_attribs prefix xml_response attribs
       (setitem lpardata (prefix @ attrib) (attrib_value xml_response attrib))"

text \<open>
  The loops of lines 234-237, 242-245 and 250-253. \<^verbatim>\<open>adapter.find(...)\<close> is
  \<^verbatim>\<open>None\<close> when the adapter has no child of that name, and \<^verbatim>\<open>.text\<close> of \<^verbatim>\<open>None\<close>
  raises AttributeError.
\<close>

fun adapter_attribs ::
  "string \<Rightarrow> nat \<Rightarrow> xml \<Rightarrow> string list \<Rightarrow> pydict \<Rightarrow> error + pydict" where
  "adapter_attribs prefix index adapter [] lpardata = Inr lpardata"
| "adapter_attribs prefix index adapter (attrib # attribs) lpardata =
     (case find_child adapter attrib of
        None \<Rightarrow> Inl AttributeError
      | Some e \<Rightarrow>
          adapter_attribs prefix index adapter attribs
            (setitem lpardata (prefix @ str_nat index @ ''_'' @ attrib) (text_of e)))"

fun adapters ::
  "string \<Rightarrow> nat \<Rightarrow> xml list \<Rightarrow> string list \<Rightarrow> pydict \<Rightarrow> error + pydict" where
  "adapters prefix index [] attribs lpardata = Inr lpardata"
| "adapters prefix index (adapter # rest) attribs lpardata =
     (case adapter_attribs prefix index adapter attribs lpardata of
        Inl err \<Rightarrow> Inl err
      | Inr lpardata' \<Rightarrow> adapters prefix (index + 1) rest attribs lpardata')"

text \<open>Lines 207-255: what is read from the default profile.\<close>

definition default_profile :: "config \<Rightarrow> xml \<Rightarrow> pydict \<Rightarrow> error + pydict" where
  "default_profile cfg xml_response lpardata =
     (let lpardata = (if compare_general cfg
                      then set_attribs ''General_'' xml_response attribs_default_general lpardata
                      else lpardata);
          lpardata = (if compare_processors cfg
                      then set_attribs ''Processor_'' xml_response attribs_default_processor lpardata
                      else lpardata);
          lpardata = (if compare_memory cfg
                      then set_attribs ''Memory_'' xml_response attribs_default_memory lpardata
                      else lpardata)
      in (case (if compare_networking cfg
                then adapters ''Network_VirtualEthAdapter_'' 0
                       (findall_desc xml_response ''ProfileClientNetworkAdapter'')
                       attribs_default_veth lpardata
                else Inr lpardata) of
            Inl err \<Rightarrow> Inl err
          | Inr lpardata \<Rightarrow>
          (case (if compare_virtual_fc cfg
                 then adapters ''vFC_VirtualFcAdapter_'' 0
                        (findall_desc xml_response ''ProfileVirtualFibreChannelClientAdapter'')
                        attribs_default_vfc lpardata
                 else Inr lpardata) of
             Inl err \<Rightarrow> Inl err
           | Inr lpardata \<Rightarrow>
               (if compare_virtual_scsi cfg
                then adapters ''vSCSI_VirtualScsiAdapter_'' 0
                       (findall_desc xml_response ''ProfileVirtualSCSIClientAdapter'')
                       attribs_default_vscsi lpardata
                else Inr lpardata))))"

definition gen_prof_headers :: "HMC \<Rightarrow> (string \<times> string option) list" where
  "gen_prof_headers self =
     [(''Content-Type'', Some ''application/xml''),
      (''Accept'', Some ''application/vnd.ibm.powervm.uom+xml''),
      (''Type'', Some ''LogicalPartition''),
      (''X-API-Session'', token self)]"

definition search_request :: "HMC \<Rightarrow> string \<Rightarrow> request" where
  "search_request self lpar =
     \<lparr>meth = GET,
      url = ''https://'' @ hmc_name self
            @ '':12443/rest/api/uom/LogicalPartition/search/(PartitionName=='' @ lpar @ '')'',
      headers = gen_prof_headers self,
      payload = []\<rparr>"

definition profile_request :: "HMC \<Rightarrow> string \<Rightarrow> request" where
  "profile_request self def_prod_url =
     \<lparr>meth = GET, url = def_prod_url, headers = gen_prof_headers self, payload = []\<rparr>"

definition get_lpar_config ::
  "'w env \<Rightarrow> config \<Rightarrow> HMC \<Rightarrow> string \<Rightarrow> 'w io \<Rightarrow> (error + pyobj) \<times> 'w io" where
  "get_lpar_config e cfg self lpar st =
     (case check_connected self ''get_lpar_config'' st of
        Some (err, st') \<Rightarrow> (Inl err, st')
      | None \<Rightarrow>
     (case send e (search_request self lpar) st of
        (Inl err, st1) \<Rightarrow> (Inl err, st1)
      | (Inr response, st1) \<Rightarrow>
          (if status_code response = 200 then
             (case fromstring e (response_text response) of
                None \<Rightarrow> (Inl ParseError, st1)
              | Some xml_response \<Rightarrow>
                  (let lpardata =
                         (if compare_general cfg
                          then set_attribs ''General_'' xml_response attribs_general_general []
                          else [])
                   in (case find_desc xml_response ''AssociatedPartitionProfile'' of
                         None \<Rightarrow> (Inr (PyInt 3), st1)
                       | Some profile \<Rightarrow>
                           (case map_of (attrib_of profile) ''href'' of
                              None \<Rightarrow> (Inl KeyError, st1)
                            | Some def_prod_url \<Rightarrow>
                                (case send e (profile_request self def_prod_url) st1 of
                                   (Inl err, st2) \<Rightarrow> (Inl err, st2)
                                 | (Inr response, st2) \<Rightarrow>
                                     (if status_code response = 200 then
                                        (case fromstring e (response_text response) of
                                           None \<Rightarrow> (Inl ParseError, st2)
                                         | Some xml_response \<Rightarrow>
                                             (case default_profile cfg xml_response lpardata of
                                                Inl err \<Rightarrow> (Inl err, st2)
                                              | Inr lpardata \<Rightarrow> (Inr (PyDict lpardata), st2)))
                                      else (Inr (PyInt 4), st2)))))))
           else if status_code response = 204 then (Inr (PyInt 1), st1)
           else (Inr (PyInt 2), st1))))"

section \<open>The script (hmc_profile_diff.py, lines 91-179)\<close>

definition is_dict :: "pyobj \<Rightarrow> bool" where
  "is_dict x = (case x of PyDict d \<Rightarrow> True | _ \<Rightarrow> False)"

text \<open>
  Lines 98-116, the loop over the HMCs: \<open>lpar_data\<close> holds \<^verbatim>\<open>lpar1_data\<close> and
  \<^verbatim>\<open>lpar2_data\<close>. The first equation is the end of the list, the first branch of the
  second one is the \<^verbatim>\<open>break\<close>.
\<close>

fun scan_hmcs ::
  "'w env \<Rightarrow> config \<Rightarrow> string \<Rightarrow> string \<Rightarrow> string \<Rightarrow> string \<Rightarrow> string list \<Rightarrow>
   pyobj \<times> pyobj \<Rightarrow> 'w io \<Rightarrow> (error + pyobj \<times> pyobj) \<times> 'w io" where
  "scan_hmcs e cfg hmc_user hmc_pass lpar1_name lpar2_name [] lpar_data st =
     (Inr lpar_data, st)"
| "scan_hmcs e cfg hmc_user hmc_pass lpar1_name lpar2_name (hostname # hmcs) lpar_data st =
     (if is_dict (fst lpar_data) \<and> is_dict (snd lpar_data) then (Inr lpar_data, st)
      else
        (case HMC_init e cfg hostname hmc_user hmc_pass st of
           (Inl err, st1) \<Rightarrow> (Inl err, st1)
         | (Inr hmc, st1) \<Rightarrow>
        (case (if \<not> is_dict (fst lpar_data) then get_lpar_config e cfg hmc lpar1_name st1
               else (Inr (fst lpar_data), st1)) of
           (Inl err, st2) \<Rightarrow> (Inl err, st2)
         | (Inr lpar1_data, st2) \<Rightarrow>
        (case (if \<not> is_dict (snd lpar_data) then get_lpar_config e cfg hmc lpar2_name st2
               else (Inr (snd lpar_data), st2)) of
           (Inl err, st3) \<Rightarrow> (Inl err, st3)
         | (Inr lpar2_data, st3) \<Rightarrow>
        (case logoff e hmc st3 of
           (Inl err, hmc', st4) \<Rightarrow> (Inl err, st4)
         | (Inr u, hmc', st4) \<Rightarrow>
             scan_hmcs e cfg hmc_user hmc_pass lpar1_name lpar2_name hmcs
               (lpar1_data, lpar2_data) st4)))))"

text \<open>
  Lines 118-140, the return codes that the script knows: \<open>Some\<close> of the message printed
  before \<^verbatim>\<open>sys.exit()\<close>, \<open>None\<close> when no branch of the chain is taken.
\<close>

definition return_code_message :: "pyobj \<Rightarrow> pyobj \<Rightarrow> string \<Rightarrow> string \<Rightarrow> string option" where
  "return_code_message lpar1_data lpar2_data lpar1_name lpar2_name =
     (if lpar1_data = PyInt 1 then Some (''[red]LPAR not found: '' @ lpar1_name @ ''[/red]'')
      else if lpar1_data = PyInt 2
        then Some (''[red]Error encountered obtaining data: '' @ lpar1_name @ ''[/red]'')
      else if lpar1_data = PyInt 3
        then Some (''[red]No default profile found: '' @ lpar1_name @ ''[/red]'')
      else if lpar2_data = PyInt 1 then Some (''[red]LPAR not found: '' @ lpar2_name @ ''[/red]'')
      else if lpar2_data = PyInt 2
        then Some (''[red]Error encountered obtaining data: '' @ lpar2_name @ ''[/red]'')
      else if lpar2_data = PyInt 3
        then Some (''[red]No default profile found: '' @ lpar2_name @ ''[/red]'')
      else None)"

text \<open>\<^verbatim>\<open>x.keys()\<close> of line 143 and 144 raises AttributeError when \<open>x\<close> is no dictionary.\<close>

definition keys_of :: "pyobj \<Rightarrow> error + pydict" where
  "keys_of x = (case x of PyDict d \<Rightarrow> Inr d | _ \<Rightarrow> Inl AttributeError)"

text \<open>\<^verbatim>\<open>s.split(':')\<close>, with the part being read held in reverse.\<close>

fun split_acc :: "char \<Rightarrow> string \<Rightarrow> string \<Rightarrow> string list" where
  "split_acc sep [] cur = [rev cur]"
| "split_acc sep (c # cs) cur =
     (if c = sep then rev cur # split_acc sep cs [] else split_acc sep cs (c # cur))"

definition split :: "char \<Rightarrow> string \<Rightarrow> string list" where
  "split sep s = split_acc sep s []"

text \<open>
  The body of the loop over the pairs, lines 93-179, for one pair: the names, the loop over
  the HMCs, the return codes, the comparison, and the table printed with its three column
  headers. \<open>hmcs\<close> is not empty (line 71 leaves the program otherwise).
\<close>

definition compare_pair ::
  "'w env \<Rightarrow> config \<Rightarrow> string list \<Rightarrow> string \<Rightarrow> string \<Rightarrow> bool \<Rightarrow> string \<Rightarrow> 'w io \<Rightarrow>
   (error + unit) \<times> 'w io" where
  "compare_pair e cfg hmcs hmc_user hmc_pass diffonly lpar_pair st =
     (case split CHR '':'' lpar_pair of
        [] \<Rightarrow> (Inl IndexError, st)
      | [lpar1_name] \<Rightarrow> (Inl IndexError, st)
      | lpar1_name # lpar2_name # others \<Rightarrow>
     (case scan_hmcs e cfg hmc_user hmc_pass lpar1_name lpar2_name hmcs (PyNone, PyNone) st of
        (Inl err, st1) \<Rightarrow> (Inl err, st1)
      | (Inr lpar_data, st1) \<Rightarrow>
     (case return_code_message (fst lpar_data) (snd lpar_data) lpar1_name lpar2_name of
        Some msg \<Rightarrow> (Inl (SystemExit None), console_print msg st1)
      | None \<Rightarrow>
     (case keys_of (fst lpar_data) of
        Inl err \<Rightarrow> (Inl err, st1)
      | Inr lpar1_data \<Rightarrow>
     (case keys_of (snd lpar_data) of
        Inl err \<Rightarrow> (Inl err, st1)
      | Inr lpar2_data \<Rightarrow>
     (case snd (compare diffonly lpar1_data lpar2_data) of
        Inl err \<Rightarrow> (Inl err, st1)
      | Inr difftable \<Rightarrow>
          (Inr (), st1\<lparr>console := console st1 @ [Table lpar1_name lpar2_name difftable]\<rparr>)))))))"

section \<open>Attribute groups\<close>

text \<open>
  The six groups of attributes, each with the prefix of its keys in the dictionary and the
  setting of \<^verbatim>\<open>config.yaml\<close> that guards its extraction in \<^verbatim>\<open>get_lpar_config\<close>.
\<close>

datatype attribute_group =
  General | Processor | Memory | NetworkAdapter | FibreChannelAdapter | ScsiAdapter

definition group_prefix :: "attribute_group \<Rightarrow> string" where
  "group_prefix g =
     (case g of General \<Rightarrow> ''General'' | Processor \<Rightarrow> ''Processor'' | Memory \<Rightarrow> ''Memory''
      | NetworkAdapter \<Rightarrow> ''Network'' | FibreChannelAdapter \<Rightarrow> ''vFC''
      | ScsiAdapter \<Rightarrow> ''vSCSI'')"

definition extraction_flag :: "config \<Rightarrow> attribute_group \<Rightarrow> bool" where
  "extraction_flag cfg g =
     (case g of General \<Rightarrow> compare_general cfg | Processor \<Rightarrow> compare_processors cfg
      | Memory \<Rightarrow> compare_memory cfg | NetworkAdapter \<Rightarrow> compare_networking cfg
      | FibreChannelAdapter \<Rightarrow> compare_virtual_fc cfg
      | ScsiAdapter \<Rightarrow> compare_virtual_scsi cfg)"

text \<open>The key \<open>k\<close> carries the prefix of a group whose extraction is enabled.\<close>

definition enabled_key :: "config \<Rightarrow> string \<Rightarrow> bool" where
  "enabled_key cfg k =
     ((compare_general cfg \<and> startswith k ''General_'') \<or>
      (compare_processors cfg \<and> startswith k ''Processor_'') \<or>
      (compare_memory cfg \<and> startswith k ''Memory_'') \<or>
      (compare_networking cfg \<and> startswith k ''Network_'') \<or>
      (compare_virtual_fc cfg \<and> startswith k ''vFC_'') \<or>
      (compare_virtual_scsi cfg \<and> startswith k ''vSCSI_''))"

section \<open>An example installation\<close>

text \<open>
  Two HMCs, \<^verbatim>\<open>hmc1\<close> and \<^verbatim>\<open>hmc2\<close>, that accept the user \<^verbatim>\<open>hscroot\<close> with the password
  \<^verbatim>\<open>abc123\<close> and answer any other logon with status 401. \<^verbatim>\<open>hmc1\<close> manages the
  partitions \<^verbatim>\<open>prod01\<close>, \<^verbatim>\<open>bad01\<close> (whose default profile cannot be fetched: status
  500) and \<^verbatim>\<open>odd01\<close> (whose network adapter has no \<^verbatim>\<open>VirtualSwitchName\<close> element);
  \<^verbatim>\<open>hmc2\<close> manages \<^verbatim>\<open>dr01\<close>. A third HMC, \<^verbatim>\<open>hmc3\<close>, knows \<^verbatim>\<open>dr01\<close> too
  but answers every logoff with status 500. A search for any other partition is answered
  with status 204. The texts of the responses are short names, and the parser of the example
  is the table from these names to the documents.
\<close>

definition xml_field :: "string \<Rightarrow> string \<Rightarrow> xml" where
  "xml_field name v = Element (qname name) [] (Some v) []"

definition logon_doc :: xml where
  "logon_doc = Element ''LogonResponse'' []  None
     [Element ''Metadata'' [] None [], Element ''X-API-Session'' [] (Some ''t0k3n'') []]"

definition search_doc :: "string \<Rightarrow> xml" where
  "search_doc href = Element ''feed'' [] None
     [Element ''entry'' [] None
        [xml_field ''PartitionType'' ''AIX/Linux'',
         Element (qname ''AssociatedPartitionProfile'') [(''href'', href)] None []]]"

definition veth :: "xml list \<Rightarrow> xml" where
  "veth fs = Element (qname ''ProfileClientNetworkAdapter'') [] None fs"

definition profile_doc :: "string \<Rightarrow> string \<Rightarrow> xml list \<Rightarrow> xml" where
  "profile_doc name mem vs = Element ''entry'' [] None
     [xml_field ''ProfileName'' name, xml_field ''SharingMode'' ''uncapped'',
      xml_field ''DesiredMemory'' mem,
      Element (qname ''ClientNetworkAdapters'') [] None vs]"

definition prod01_default :: xml where
  "prod01_default =
     profile_doc ''default'' ''4096''
       [veth [xml_field ''VirtualSlotNumber'' ''2'', xml_field ''PortVLANID'' ''1'',
              xml_field ''VirtualSwitchName'' ''ETHERNET0'']]"

definition example_fromstring :: "string \<Rightarrow> xml option" where
  "example_fromstring s =
     (if s = ''logon'' then Some logon_doc
      else if s = ''prod01'' then Some (search_doc ''https://hmc1/prod01/default'')
      else if s = ''bad01'' then Some (search_doc ''https://hmc1/bad01/default'')
      else if s = ''odd01'' then Some (search_doc ''https://hmc1/odd01/default'')
      else if s = ''dr01'' then Some (search_doc ''https://hmc2/dr01/default'')
      else if s = ''prod01_default'' then Some prod01_default
      else if s = ''odd01_default''
        then Some (profile_doc ''default'' ''4096''
                     [veth [xml_field ''VirtualSlotNumber'' ''2'', xml_field ''PortVLANID'' ''1'']])
      else if s = ''dr01_default'' then Some (profile_doc ''default'' ''2048'' [])
      else None)"

definition example_serve :: "unit \<Rightarrow> request \<Rightarrow> response option \<times> unit" where
  "example_serve w req =
     (let answer = (\<lambda>code body. (Some \<lparr>status_code = code, response_text = body\<rparr>, w));
          search = (\<lambda>host lpar.
             ''https://'' @ host @ '':12443/rest/api/uom/LogicalPartition/search/(PartitionName==''
             @ lpar @ '')'')
      in if meth req = PUT then
           (if payload req = payload (logon_request [] ''hscroot'' ''abc123'')
            then answer 200 ''logon'' else answer 401 ''rejected'')
         else if meth req = DELETE then
           (if url req = ''https://hmc3:12443/rest/api/web/Logon''
            then answer 500 ''busy'' else answer 204 [])
         else if url req = search ''hmc1'' ''prod01'' then answer 200 ''prod01''
         else if url req = search ''hmc1'' ''bad01'' then answer 200 ''bad01''
         else if url req = search ''hmc1'' ''odd01'' then answer 200 ''odd01''
         else if url req = search ''hmc2'' ''dr01'' then answer 200 ''dr01''
         else if url req = search ''hmc3'' ''dr01'' then answer 200 ''dr01''
         else if url req = ''https://hmc1/prod01/default'' then answer 200 ''prod01_default''
         else if url req = ''https://hmc1/odd01/default'' then answer 200 ''odd01_default''
         else if url req = ''https://hmc2/dr01/default'' then answer 200 ''dr01_default''
         else if url req = ''https://hmc1/bad01/default'' then answer 500 ''error''
         else answer 204 [])"

definition example_env :: "unit env" where
  "example_env = \<lparr>serve = example_serve, fromstring = example_fromstring\<rparr>"

definition example_cfg :: config where
  "example_cfg =
     \<lparr>cfg_ssl_verify = False, compare_general = True, compare_processors = False,
      compare_memory = True, compare_networking = True, compare_virtual_fc = True,
      compare_virtual_scsi = True\<rparr>"

definition start :: "unit io" where
  "start = \<lparr>world = (), sent = [], console = []\<rparr>"

text \<open>
  What \<^verbatim>\<open>get_lpar_config\<close> returns for \<^verbatim>\<open>prod01\<close> and for \<^verbatim>\<open>dr01\<close> under
  \<open>example_cfg\<close>, where the extraction of the processor attributes is disabled.
\<close>

definition prod01_data :: pydict where
  "prod01_data =
     [(''General_PartitionType'', Some ''AIX/Linux''),
      (''General_CurrentProcessorCompatibilityMode'', None),
      (''General_ProfileName'', Some ''default''),
      (''Memory_ActiveMemoryExpansionEnabled'', None),
      (''Memory_DesiredMemory'', Some ''4096''),
      (''Memory_ExpansionFactor'', None),
      (''Memory_MaximumMemory'', None),
      (''Memory_MinimumMemory'', None),
      (''Network_VirtualEthAdapter_0_VirtualSlotNumber'', Some ''2''),
      (''Network_VirtualEthAdapter_0_PortVLANID'', Some ''1''),
      (''Network_VirtualEthAdapter_0_VirtualSwitchName'', Some ''ETHERNET0'')]"

definition dr01_data :: pydict where
  "dr01_data =
     [(''General_PartitionType'', Some ''AIX/Linux''),
      (''General_CurrentProcessorCompatibilityMode'', None),
      (''General_ProfileName'', Some ''default''),
      (''Memory_ActiveMemoryExpansionEnabled'', None),
      (''Memory_DesiredMemory'', Some ''2048''),
      (''Memory_ExpansionFactor'', None),
      (''Memory_MaximumMemory'', None),
      (''Memory_MinimumMemory'', None)]"

text \<open>A session on \<^verbatim>\<open>hmc1\<close> after its logon, and the same session after its logoff.\<close>

definition open_session :: HMC where
  "open_session =
     \<lparr>hmc_name = ''hmc1'', token = Some ''t0k3n'', ssl_verify = False, connected = True\<rparr>"

definition closed_session :: HMC where
  "closed_session = open_session\<lparr>connected := False\<rparr>"

definition open_session2 :: HMC where
  "open_session2 = open_session\<lparr>hmc_name := ''hmc2''\<rparr>"

definition open_session3 :: HMC where
  "open_session3 = open_session\<lparr>hmc_name := ''hmc3''\<rparr>"

text \<open>The object of \<^verbatim>\<open>__init__\<close> before its call of \<^verbatim>\<open>logon\<close>.\<close>

definition new_session :: HMC where
  "new_session = \<lparr>hmc_name = [], token = Some [], ssl_verify = False, connected = False\<rparr>"

text \<open>
  The requests of a run that compares \<^verbatim>\<open>dr01\<close> with \<^verbatim>\<open>prod01\<close> over the two HMCs, in
  the order in which they are sent, and the state of the run after the first \<open>n\<close> of them.
\<close>

definition example_trace :: "request list" where
  "example_trace =
     [logon_request ''hmc1'' ''hscroot'' ''abc123'',
      search_request open_session ''dr01'',
      search_request open_session ''prod01'',
      profile_request open_session ''https://hmc1/prod01/default'',
      logoff_request open_session,
      logon_request ''hmc2'' ''hscroot'' ''abc123'',
      search_request open_session2 ''dr01'',
      profile_request open_session2 ''https://hmc2/dr01/default'',
      logoff_request open_session2]"

definition after :: "nat \<Rightarrow> unit io" where
  "after n = start\<lparr>sent := take n example_trace\<rparr>"

text \<open>The same for the pair in the other order, \<^verbatim>\<open>prod01\<close> with \<^verbatim>\<open>dr01\<close>.\<close>

definition swapped_trace :: "request list" where
  "swapped_trace =
     [logon_request ''hmc1'' ''hscroot'' ''abc123'',
      search_request open_session ''prod01'',
      profile_request open_session ''https://hmc1/prod01/default'',
      search_request open_session ''dr01'',
      logoff_request open_session,
      logon_request ''hmc2'' ''hscroot'' ''abc123'',
      search_request open_session2 ''dr01'',
      profile_request open_session2 ''https://hmc2/dr01/default'',
      logoff_request open_session2]"

definition swapped_after :: "nat \<Rightarrow> unit io" where
  "swapped_after n = start\<lparr>sent := take n swapped_trace\<rparr>"

text \<open>
  The run over \<^verbatim>\<open>hmc1\<close> and \<^verbatim>\<open>hmc3\<close> when it has logged on to \<^verbatim>\<open>hmc3\<close>.
\<close>

definition on_hmc3 :: "unit io" where
  "on_hmc3 =
     start\<lparr>sent := take 5 example_trace @ [logon_request ''hmc3'' ''hscroot'' ''abc123'']\<rparr>"

section \<open>Properties of the comparison\<close>

lemma map_of_setitem: "map_of (setitem d k v) = (map_of d)(k \<mapsto> v)"
  by (simp add: setitem_def update_conv')

lemma keys_setitem: "set (dict_keys (setitem d k v)) = insert k (set (dict_keys d))"
  by (simp add: setitem_def dict_keys_def dom_update)

lemma in_keys_iff: "k \<in> set (dict_keys d) \<longleftrightarrow> map_of d k \<noteq> None"
  by (simp add: dict_keys_def map_of_eq_None_iff)

lemma pad_step_pair:
  "pad_step k (d1, d2) =
     (if k \<notin> set (dict_keys d1) then setitem d1 k missing else d1,
      if k \<notin> set (dict_keys d2) then setitem d2 k missing else d2)"
  by (simp add: pad_step_def)

lemma fold_pad_step_fst:
  "map_of (fst (fold pad_step ks (d1, d2))) k =
     (if k \<in> set (dict_keys d1) then map_of d1 k
      else if k \<in> set ks then Some missing else None)"
proof (induction ks arbitrary: d1 d2)
  case Nil
  then show ?case by (simp add: in_keys_iff)
next
  case (Cons x xs)
  show ?case
    by (simp add: pad_step_pair Cons.IH keys_setitem map_of_setitem)
qed

lemma fold_pad_step_snd:
  "map_of (snd (fold pad_step ks (d1, d2))) k =
     (if k \<in> set (dict_keys d2) then map_of d2 k
      else if k \<in> set ks then Some missing else None)"
proof (induction ks arbitrary: d1 d2)
  case Nil
  then show ?case by (simp add: in_keys_iff)
next
  case (Cons x xs)
  show ?case
    by (simp add: pad_step_pair Cons.IH keys_setitem map_of_setitem)
qed

lemma pad_lookup1:
  "map_of (fst (pad ks d1 d2)) k =
     (if k \<in> set (dict_keys d1) then map_of d1 k
      else if k \<in> set ks then Some missing else None)"
  by (simp add: pad_def fold_pad_step_fst)

lemma pad_lookup2:
  "map_of (snd (pad ks d1 d2)) k =
     (if k \<in> set (dict_keys d2) then map_of d2 k
      else if k \<in> set ks then Some missing else None)"
  by (simp add: pad_def fold_pad_step_snd)

lemma pad_keys1: "set (dict_keys (fst (pad ks d1 d2))) = set (dict_keys d1) \<union> set ks"
  by (auto simp: in_keys_iff pad_lookup1 split: if_splits)

lemma pad_keys2: "set (dict_keys (snd (pad ks d1 d2))) = set (dict_keys d2) \<union> set ks"
  by (auto simp: in_keys_iff pad_lookup2 split: if_splits)

lemma finite_allkeys: "finite (allkeys a b)"
  by (simp add: allkeys_def)

lemma set_sorted_allkeys: "set (sorted_list_of_set (allkeys a b)) = allkeys a b"
  by (simp add: finite_allkeys)

text \<open>After the padding both dictionaries hold every key of the union.\<close>

lemma getitem_padded1:
  "k \<in> allkeys a b \<Longrightarrow>
   getitem (fst (pad (sorted_list_of_set (allkeys a b)) a b)) k = Inr (padded_value a k)"
  by (auto simp: getitem_def pad_lookup1 set_sorted_allkeys padded_value_def in_keys_iff
           split: option.splits)

lemma getitem_padded2:
  "k \<in> allkeys a b \<Longrightarrow>
   getitem (snd (pad (sorted_list_of_set (allkeys a b)) a b)) k = Inr (padded_value b k)"
  by (auto simp: getitem_def pad_lookup2 set_sorted_allkeys padded_value_def in_keys_iff allkeys_def
           split: option.splits)

lemma samevalues_eq:
  assumes "\<And>k. k \<in> set ks \<Longrightarrow> getitem d1 k = Inr (f1 k)"
      and "\<And>k. k \<in> set ks \<Longrightarrow> getitem d2 k = Inr (f2 k)"
  shows "samevalues ks d1 d2 = Inr (filter (\<lambda>k. f1 k = f2 k) ks)"
  using assms by (induction ks) auto

lemma k_printname_eq:
  "k_printname pk k =
     (if CHR ''_'' \<in> set k then Inr (display_name pk k) else Inl IndexError)"
  by (simp add: k_printname_def display_name_def split1_def rsplit1_def item1_def)

lemma add_rows_eq:
  assumes "getitem d1 k = Inr (padded_value a k)" "getitem d2 k = Inr (padded_value b k)"
      and "k \<in> set same \<longleftrightarrow> padded_value a k = padded_value b k"
      and "startswith k pk"
  shows "add_rows diffonly same d1 d2 (display_name pk k) k difftable =
         Inr (difftable @ map (row_of a b pk) (shown_keys diffonly a b pk [k]))"
  using assms by (simp add: add_rows_def styled_row_def row_of_def shown_keys_def Let_def)

lemma shown_keys_Cons:
  "shown_keys diffonly a b pk (k # ks) = shown_keys diffonly a b pk [k] @ shown_keys diffonly a b pk ks"
  by (simp add: shown_keys_def)

lemma shown_keys_not_prefix:
  "\<not> startswith k pk \<Longrightarrow> shown_keys diffonly a b pk [k] = []"
  by (simp add: shown_keys_def)

lemma table_keys_eq:
  assumes "\<And>k. k \<in> set ks \<Longrightarrow> getitem d1 k = Inr (padded_value a k)"
      and "\<And>k. k \<in> set ks \<Longrightarrow> getitem d2 k = Inr (padded_value b k)"
      and "\<And>k. k \<in> set ks \<Longrightarrow> (k \<in> set same \<longleftrightarrow> padded_value a k = padded_value b k)"
  shows "table_keys diffonly same d1 d2 pk ks difftable =
         (if unprintable [pk] ks then Inl IndexError
          else Inr (difftable @ map (row_of a b pk) (shown_keys diffonly a b pk ks)))"
  using assms
proof (induction ks arbitrary: difftable)
  case Nil
  then show ?case by (simp add: unprintable_def shown_keys_def)
next
  case (Cons k ks)
  have IH: "table_keys diffonly same d1 d2 pk ks t =
         (if unprintable [pk] ks then Inl IndexError
          else Inr (t @ map (row_of a b pk) (shown_keys diffonly a b pk ks)))" for t
    using Cons by simp
  show ?case
  proof (cases "startswith k pk")
    case False
    then show ?thesis
      by (simp add: IH unprintable_def shown_keys_Cons [of _ _ _ _ k ks] shown_keys_not_prefix)
  next
    case True
    show ?thesis
    proof (cases "CHR ''_'' \<in> set k")
      case False
      with True show ?thesis by (simp add: k_printname_eq unprintable_def)
    next
      case und: True
      have "add_rows diffonly same d1 d2 (display_name pk k) k difftable =
            Inr (difftable @ map (row_of a b pk) (shown_keys diffonly a b pk [k]))"
        using Cons.prems True by (intro add_rows_eq) simp_all
      with True und show ?thesis
        by (simp add: k_printname_eq IH unprintable_def shown_keys_Cons [of _ _ _ _ k ks])
    qed
  qed
qed

lemma unprintable_Cons:
  "unprintable (pk # pks) ks \<longleftrightarrow> unprintable [pk] ks \<or> unprintable pks ks"
  by (auto simp: unprintable_def list_ex_iff)

lemma table_groups_eq:
  assumes "\<And>k. k \<in> set ks \<Longrightarrow> getitem d1 k = Inr (padded_value a k)"
      and "\<And>k. k \<in> set ks \<Longrightarrow> getitem d2 k = Inr (padded_value b k)"
      and "\<And>k. k \<in> set ks \<Longrightarrow> (k \<in> set same \<longleftrightarrow> padded_value a k = padded_value b k)"
  shows "table_groups diffonly same d1 d2 pks ks difftable =
         (if unprintable pks ks then Inl IndexError
          else Inr (difftable @ spec_rows diffonly a b pks ks))"
proof (induction pks arbitrary: difftable)
  case Nil
  then show ?case by (simp add: unprintable_def spec_rows_def list_ex_iff)
next
  case (Cons pk pks)
  show ?case
    by (simp add: table_keys_eq [OF assms] Cons.IH unprintable_Cons [of pk pks] spec_rows_def)
qed

lemma compare_rows:
  "snd (compare diffonly a b) =
     (if unprintable primarykeys (sorted_list_of_set (allkeys a b)) then Inl IndexError
      else Inr (spec_rows diffonly a b primarykeys (sorted_list_of_set (allkeys a b))))"
proof -
  let ?ks = "sorted_list_of_set (allkeys a b)"
  let ?d1 = "fst (pad ?ks a b)" and ?d2 = "snd (pad ?ks a b)"
  have keys1: "set (dict_keys ?d1) = allkeys a b"
    by (auto simp: pad_keys1 set_sorted_allkeys allkeys_def)
  have g1: "getitem ?d1 k = Inr (padded_value a k)" if "k \<in> allkeys a b" for k
    using that by (rule getitem_padded1)
  have g2: "getitem ?d2 k = Inr (padded_value b k)" if "k \<in> allkeys a b" for k
    using that by (rule getitem_padded2)
  have same: "samevalues (dict_keys ?d1) ?d1 ?d2 =
              Inr (filter (\<lambda>k. padded_value a k = padded_value b k) (dict_keys ?d1))"
    by (rule samevalues_eq) (simp_all add: keys1 g1 g2)
  have "table_groups diffonly (filter (\<lambda>k. padded_value a k = padded_value b k) (dict_keys ?d1))
          ?d1 ?d2 primarykeys ?ks [] =
        (if unprintable primarykeys ?ks then Inl IndexError
         else Inr ([] @ spec_rows diffonly a b primarykeys ?ks))"
    by (rule table_groups_eq) (simp_all add: set_sorted_allkeys g1 g2 keys1)
  then show ?thesis
    by (simp add: compare_def Let_def same)
qed

lemma compare_padded:
  "fst (compare diffonly a b) = pad (sorted_list_of_set (allkeys a b)) a b"
  by (simp add: compare_def Let_def)

lemma row_matched_row_of:
  "row_matched (row_of a b pk k) \<longleftrightarrow> padded_value a k = padded_value b k"
  by (simp add: row_matched_def row_of_def Let_def markup_def startswith_def)

lemma shown_keys_diffonly:
  "shown_keys True a b pk ks =
   filter (\<lambda>k. padded_value a k \<noteq> padded_value b k) (shown_keys False a b pk ks)"
  by (simp add: shown_keys_def conj_commute)

lemma spec_rows_diffonly:
  "spec_rows True a b pks ks = filter (\<lambda>r. \<not> row_matched r) (spec_rows False a b pks ks)"
  by (induction pks)
     (simp_all add: spec_rows_def shown_keys_diffonly filter_map o_def row_matched_row_of)

text \<open>
  Claim C2. With \<^verbatim>\<open>--diffonly\<close> the table holds exactly the rows of the full table that
  are not marked as matching, in the same order and with the same three cells; when the
  full run raises, the diff-only run raises the same exception.
\<close>

theorem diffonly_rows_are_the_mismatched_rows:
  "snd (compare True a b) =
     (case snd (compare False a b) of
        Inl e \<Rightarrow> Inl e
      | Inr rows \<Rightarrow> Inr (filter (\<lambda>r. \<not> row_matched r) rows))"
  by (simp add: compare_rows spec_rows_diffonly)

theorem diffonly_rows_are_the_mismatched_rows_witness:
  "snd (compare True
          [(''General_PartitionType'', Some ''AIX''), (''Processor_SharingMode'', Some ''uncapped'')]
          [(''General_PartitionType'', Some ''AIX'')]) =
   Inr [(''SharingMode'', ''[red]uncapped[/red]'', ''[red]missing[/red]'')] \<and>
   snd (compare False
          [(''General_PartitionType'', Some ''AIX''), (''Processor_SharingMode'', Some ''uncapped'')]
          [(''General_PartitionType'', Some ''AIX'')]) =
   Inr [(''PartitionType'', ''[green]AIX[/green]'', ''[green]AIX[/green]''),
        (''SharingMode'', ''[red]uncapped[/red]'', ''[red]missing[/red]'')]"
proof -
  have full: "snd (compare False
          [(''General_PartitionType'', Some ''AIX''), (''Processor_SharingMode'', Some ''uncapped'')]
          [(''General_PartitionType'', Some ''AIX'')]) =
   Inr [(''PartitionType'', ''[green]AIX[/green]'', ''[green]AIX[/green]''),
        (''SharingMode'', ''[red]uncapped[/red]'', ''[red]missing[/red]'')]"
    by code_simp
  show ?thesis
    using diffonly_rows_are_the_mismatched_rows
            [of "[(''General_PartitionType'', Some ''AIX''),
                  (''Processor_SharingMode'', Some ''uncapped'')]"
                "[(''General_PartitionType'', Some ''AIX'')]"]
    by (simp add: full row_matched_def startswith_def)
qed

text \<open>
  Claim C10. The comparison pads the two dictionaries it is given: afterwards each holds
  exactly the keys of the union, a key it had keeps its value, and a key it lacked has the
  value \<^verbatim>\<open>'missing'\<close>. A dictionary that lacked a key of the other one is therefore changed.
\<close>

theorem compare_pads_in_place:
  assumes "fst (compare diffonly a b) = (a', b')"
  shows "set (dict_keys a') = allkeys a b \<and> set (dict_keys b') = allkeys a b \<and>
         (\<forall>k. map_of a' k =
                (if k \<in> set (dict_keys a) then map_of a k
                 else if k \<in> set (dict_keys b) then Some missing else None)) \<and>
         (\<forall>k. map_of b' k =
                (if k \<in> set (dict_keys b) then map_of b k
                 else if k \<in> set (dict_keys a) then Some missing else None)) \<and>
         (set (dict_keys a) \<noteq> allkeys a b \<longrightarrow> a' \<noteq> a) \<and>
         (set (dict_keys b) \<noteq> allkeys a b \<longrightarrow> b' \<noteq> b)"
proof -
  let ?ks = "sorted_list_of_set (allkeys a b)"
  have a': "a' = fst (pad ?ks a b)" and b': "b' = snd (pad ?ks a b)"
    using assms by (simp_all add: compare_padded)
  have ka: "set (dict_keys a') = allkeys a b"
    by (auto simp: a' pad_keys1 set_sorted_allkeys allkeys_def)
  have kb: "set (dict_keys b') = allkeys a b"
    by (auto simp: b' pad_keys2 set_sorted_allkeys allkeys_def)
  have la: "map_of a' k =
                (if k \<in> set (dict_keys a) then map_of a k
                 else if k \<in> set (dict_keys b) then Some missing else None)" for k
    by (auto simp: a' pad_lookup1 set_sorted_allkeys allkeys_def)
  have lb: "map_of b' k =
                (if k \<in> set (dict_keys b) then map_of b k
                 else if k \<in> set (dict_keys a) then Some missing else None)" for k
    by (auto simp: b' pad_lookup2 set_sorted_allkeys allkeys_def)
  from ka kb la lb show ?thesis by auto
qed

theorem compare_pads_in_place_witness:
  "fst (compare False
          [(''General_PartitionType'', Some ''AIX''), (''Processor_SharingMode'', Some ''uncapped'')]
          [(''General_PartitionType'', Some ''AIX'')]) =
     ([(''General_PartitionType'', Some ''AIX''), (''Processor_SharingMode'', Some ''uncapped'')],
      [(''General_PartitionType'', Some ''AIX''), (''Processor_SharingMode'', Some ''missing'')]) \<and>
   map_of [(''General_PartitionType'', Some ''AIX''), (''Processor_SharingMode'', Some ''missing'')]
      ''Processor_SharingMode'' = Some missing \<and>
   [(''General_PartitionType'', Some ''AIX''), (''Processor_SharingMode'', Some ''missing'')] \<noteq>
   [(''General_PartitionType'', Some ''AIX'')]"
proof -
  have run: "fst (compare False
          [(''General_PartitionType'', Some ''AIX''), (''Processor_SharingMode'', Some ''uncapped'')]
          [(''General_PartitionType'', Some ''AIX'')]) =
     ([(''General_PartitionType'', Some ''AIX''), (''Processor_SharingMode'', Some ''uncapped'')],
      [(''General_PartitionType'', Some ''AIX''), (''Processor_SharingMode'', Some ''missing'')])"
    by code_simp
  show ?thesis
    using compare_pads_in_place [OF run] run
    by (simp add: missing_def)
qed

lemma display_name_adapter:
  "pk \<in> set [''Network'', ''vFC'', ''vSCSI''] \<Longrightarrow> display_name pk (pk @ ''_'' @ rest) = rest"
  by (auto simp: display_name_def)

lemma display_name_group:
  assumes "pk \<notin> set [''Network'', ''vFC'', ''vSCSI'']" and "CHR ''_'' \<notin> set field"
  shows "display_name pk (pre @ ''_'' @ field) = field"
proof -
  have "takeWhile (\<lambda>c. c \<noteq> CHR ''_'') (rev field @ CHR ''_'' # rev pre) = rev field"
    using assms(2) by (subst takeWhile_append2) auto
  with assms(1) show ?thesis by (simp add: display_name_def)
qed

lemma map_fst_spec_rows:
  "map fst (spec_rows diffonly a b pks ks) =
   concat (map (\<lambda>pk. map (display_name pk) (shown_keys diffonly a b pk ks)) pks)"
  by (simp add: spec_rows_def map_concat o_def row_of_def Let_def)

text \<open>
  Claim C3, as amended. The display names of the rows are the display names of the keys
  shown, in the order of the rows. For a key of an adapter group (Network, vFC, vSCSI)
  only the group and the first underscore are stripped: the adapter type, the index and
  the field name are shown. For a key of another group the group and its underscore are
  stripped and the field name is shown.
\<close>

theorem display_name_derivation:
  "(snd (compare diffonly a b) = Inr rows \<longrightarrow>
      map fst rows =
        concat (map (\<lambda>pk. map (display_name pk)
                        (shown_keys diffonly a b pk (sorted_list_of_set (allkeys a b))))
                    primarykeys)) \<and>
   (pk1 \<in> set [''Network'', ''vFC'', ''vSCSI''] \<longrightarrow>
      display_name pk1 (pk1 @ ''_'' @ rest) = rest) \<and>
   (pk2 \<in> set [''General'', ''Processor'', ''Memory''] \<longrightarrow> CHR ''_'' \<notin> set field \<longrightarrow>
      display_name pk2 (pk2 @ ''_'' @ field) = field)"
proof (intro conjI impI)
  assume "snd (compare diffonly a b) = Inr rows"
  then have "rows = spec_rows diffonly a b primarykeys (sorted_list_of_set (allkeys a b))"
    by (simp add: compare_rows split: if_splits)
  then show "map fst rows =
        concat (map (\<lambda>pk. map (display_name pk)
                        (shown_keys diffonly a b pk (sorted_list_of_set (allkeys a b))))
                    primarykeys)"
    by (simp add: map_fst_spec_rows)
next
  assume "pk1 \<in> set [''Network'', ''vFC'', ''vSCSI'']"
  then show "display_name pk1 (pk1 @ ''_'' @ rest) = rest"
    by (rule display_name_adapter)
next
  assume "pk2 \<in> set [''General'', ''Processor'', ''Memory'']" and "CHR ''_'' \<notin> set field"
  then show "display_name pk2 (pk2 @ ''_'' @ field) = field"
    by (intro display_name_group) auto
qed

theorem display_name_derivation_witness:
  "snd (compare False
          [(''General_PartitionType'', Some ''AIX''),
           (''Network_VirtualEthAdapter_0_PortVLANID'', Some ''1'')]
          [(''General_PartitionType'', Some ''AIX'')]) =
     Inr [(''PartitionType'', ''[green]AIX[/green]'', ''[green]AIX[/green]''),
          (''VirtualEthAdapter_0_PortVLANID'', ''[red]1[/red]'', ''[red]missing[/red]'')] \<and>
   map fst [(''PartitionType'', ''[green]AIX[/green]'', ''[green]AIX[/green]''),
            (''VirtualEthAdapter_0_PortVLANID'', ''[red]1[/red]'', ''[red]missing[/red]'')] =
     concat (map (\<lambda>pk. map (display_name pk)
                     (shown_keys False
                        [(''General_PartitionType'', Some ''AIX''),
                         (''Network_VirtualEthAdapter_0_PortVLANID'', Some ''1'')]
                        [(''General_PartitionType'', Some ''AIX'')] pk
                        (sorted_list_of_set (allkeys
                           [(''General_PartitionType'', Some ''AIX''),
                            (''Network_VirtualEthAdapter_0_PortVLANID'', Some ''1'')]
                           [(''General_PartitionType'', Some ''AIX'')]))))
                 primarykeys) \<and>
   display_name ''Network'' (''Network'' @ ''_'' @ ''VirtualEthAdapter_0_PortVLANID'') =
     ''VirtualEthAdapter_0_PortVLANID'' \<and>
   display_name ''General'' (''General'' @ ''_'' @ ''PartitionType'') = ''PartitionType''"
proof -
  have run: "snd (compare False
          [(''General_PartitionType'', Some ''AIX''),
           (''Network_VirtualEthAdapter_0_PortVLANID'', Some ''1'')]
          [(''General_PartitionType'', Some ''AIX'')]) =
     Inr [(''PartitionType'', ''[green]AIX[/green]'', ''[green]AIX[/green]''),
          (''VirtualEthAdapter_0_PortVLANID'', ''[red]1[/red]'', ''[red]missing[/red]'')]"
    by code_simp
  show ?thesis
    using run
      display_name_derivation [of False
          "[(''General_PartitionType'', Some ''AIX''),
            (''Network_VirtualEthAdapter_0_PortVLANID'', Some ''1'')]"
          "[(''General_PartitionType'', Some ''AIX'')]"
          "[(''PartitionType'', ''[green]AIX[/green]'', ''[green]AIX[/green]''),
            (''VirtualEthAdapter_0_PortVLANID'', ''[red]1[/red]'', ''[red]missing[/red]'')]"
          "''Network''" "''VirtualEthAdapter_0_PortVLANID''" "''General''" "''PartitionType''"]
    by simp
qed

text \<open>
  Claim C3 as stated fails: the row of \<^verbatim>\<open>Network_VirtualEthAdapter_0_PortVLANID\<close> is
  named \<^verbatim>\<open>VirtualEthAdapter_0_PortVLANID\<close>, not by the bare field name
  \<^verbatim>\<open>PortVLANID\<close>.
\<close>

theorem adapter_display_name_counterexample:
  "snd (compare False
          [(''Network_VirtualEthAdapter_0_PortVLANID'', Some ''1'')]
          [(''Network_VirtualEthAdapter_0_PortVLANID'', Some ''1'')]) =
     Inr [(''VirtualEthAdapter_0_PortVLANID'', ''[green]1[/green]'', ''[green]1[/green]'')] \<and>
   snd (compare False
          [(''Network_VirtualEthAdapter_0_PortVLANID'', Some ''1'')]
          [(''Network_VirtualEthAdapter_0_PortVLANID'', Some ''1'')]) \<noteq>
     Inr [(''PortVLANID'', ''[green]1[/green]'', ''[green]1[/green]'')]"
proof -
  have "snd (compare False
               [(''Network_VirtualEthAdapter_0_PortVLANID'', Some ''1'')]
               [(''Network_VirtualEthAdapter_0_PortVLANID'', Some ''1'')]) =
        Inr [(''VirtualEthAdapter_0_PortVLANID'', ''[green]1[/green]'', ''[green]1[/green]'')]"
    by code_simp
  then show ?thesis by simp
qed

lemma startswith_take2:
  assumes "startswith k p" and "2 \<le> length p"
  shows "take 2 k = take 2 p"
proof -
  have "take 2 (take (length p) k) = take 2 k"
    using assms(2) by (simp add: min_def)
  with assms(1) show ?thesis by (simp add: startswith_def)
qed

lemma primarykey_unique:
  assumes "startswith k p" and "startswith k q"
      and "p \<in> set primarykeys" and "q \<in> set primarykeys"
  shows "p = q"
proof -
  have len: "2 \<le> length x" if "x \<in> set primarykeys" for x
    using that by (auto simp: primarykeys_def)
  have inj: "inj_on (take 2) (set primarykeys)"
    by (simp add: primarykeys_def)
  have "take 2 k = take 2 p"
    using assms(1) len [OF assms(3)] by (rule startswith_take2)
  moreover have "take 2 k = take 2 q"
    using assms(2) len [OF assms(4)] by (rule startswith_take2)
  ultimately have eq: "take 2 p = take 2 q" by simp
  from inj eq assms(3,4) show ?thesis by (rule inj_onD)
qed

lemma distinct_concat_filters:
  assumes "distinct ks" and "distinct pks"
      and "\<And>k p q. P p k \<Longrightarrow> P q k \<Longrightarrow> p \<in> set pks \<Longrightarrow> q \<in> set pks \<Longrightarrow> p = q"
  shows "distinct (concat (map (\<lambda>pk. filter (P pk) ks) pks))"
  using assms(2,3)
proof (induction pks)
  case Nil
  then show ?case by simp
next
  case (Cons p pks)
  have "distinct (concat (map (\<lambda>pk. filter (P pk) ks) pks))"
    using Cons.prems by (intro Cons.IH) auto
  moreover have "set (filter (P p) ks) \<inter> set (concat (map (\<lambda>pk. filter (P pk) ks) pks)) = {}"
  proof (rule ccontr)
    assume "set (filter (P p) ks) \<inter> set (concat (map (\<lambda>pk. filter (P pk) ks) pks)) \<noteq> {}"
    then obtain k q where "P p k" "q \<in> set pks" "P q k" by auto
    with Cons.prems(2) [of p k q] have "p = q" by simp
    with \<open>q \<in> set pks\<close> Cons.prems(1) show False by simp
  qed
  ultimately show ?case using assms(1) by simp
qed

text \<open>
  When every key of the two dictionaries starts with a primary key and an underscore, as
  the keys that \<^verbatim>\<open>get_lpar_config\<close> writes do, the full table has exactly one row
  for each key of the union.
\<close>

lemma compare_shows_each_key_once:
  assumes "list_all (\<lambda>k. list_ex (\<lambda>pk. startswith k (pk @ ''_'')) primarykeys)
             (sorted_list_of_set (allkeys a b))"
  shows "snd (compare False a b) =
           Inr (spec_rows False a b primarykeys (sorted_list_of_set (allkeys a b))) \<and>
         distinct (concat (map (\<lambda>pk. shown_keys False a b pk (sorted_list_of_set (allkeys a b)))
                            primarykeys)) \<and>
         set (concat (map (\<lambda>pk. shown_keys False a b pk (sorted_list_of_set (allkeys a b)))
                       primarykeys)) = allkeys a b"
proof -
  let ?ks = "sorted_list_of_set (allkeys a b)"
  have wf: "\<exists>pk \<in> set primarykeys. startswith k (pk @ ''_'')" if "k \<in> allkeys a b" for k
    using assms that by (auto simp: list_all_iff list_ex_iff set_sorted_allkeys)
  have pre: "startswith k pk \<and> CHR ''_'' \<in> set k" if "startswith k (pk @ ''_'')" for k pk
  proof
    from that have t: "take (length pk + 1) k = pk @ ''_''" by (simp add: startswith_def)
    then have "take (length pk) (take (length pk + 1) k) = pk" by simp
    then show "startswith k pk" by (simp add: startswith_def min_def)
    have "CHR ''_'' \<in> set (pk @ ''_'')" by simp
    then have "CHR ''_'' \<in> set (take (length pk + 1) k)" by (simp only: t)
    then show "CHR ''_'' \<in> set k" by (rule in_set_takeD)
  qed
  have printable: "\<not> unprintable primarykeys ?ks"
    using wf pre by (auto simp: unprintable_def list_ex_iff set_sorted_allkeys)
  have rows: "snd (compare False a b) = Inr (spec_rows False a b primarykeys ?ks)"
    by (simp add: compare_rows printable)
  have sk: "shown_keys False a b pk ?ks = filter (\<lambda>k. startswith k pk) ?ks" for pk
    by (simp add: shown_keys_def)
  have d: "distinct (concat (map (\<lambda>pk. filter (\<lambda>k. startswith k pk) ?ks) primarykeys))"
  proof (rule distinct_concat_filters)
    show "distinct ?ks" by simp
    show "distinct primarykeys" by (simp add: primarykeys_def)
    show "p = q" if "startswith k p" "startswith k q" "p \<in> set primarykeys"
      "q \<in> set primarykeys" for k p q
      using that by (rule primarykey_unique)
  qed
  have s: "set (concat (map (\<lambda>pk. filter (\<lambda>k. startswith k pk) ?ks) primarykeys)) = allkeys a b"
  proof -
    have "\<exists>pk \<in> set primarykeys. startswith k pk" if "k \<in> allkeys a b" for k
      using wf [OF that] pre by blast
    then show ?thesis by (auto simp: set_sorted_allkeys)
  qed
  from rows d s show ?thesis by (simp add: sk)
qed

text \<open>
  Claim C1 at a failing input. The first partition has one virtual Ethernet adapter on a
  virtual switch named \<^verbatim>\<open>missing\<close>, the second has no adapter: the key
  \<^verbatim>\<open>Network_VirtualEthAdapter_0_VirtualSwitchName\<close> is in one record only, and its row
  is marked as matching (green), where the claim says that it is marked as mismatched.
\<close>

theorem missing_sentinel_collision:
  "snd (compare False
          [(''Network_VirtualEthAdapter_0_VirtualSlotNumber'', Some ''2''),
           (''Network_VirtualEthAdapter_0_PortVLANID'', Some ''1''),
           (''Network_VirtualEthAdapter_0_VirtualSwitchName'', Some ''missing'')]
          []) =
   Inr [(''VirtualEthAdapter_0_PortVLANID'', ''[red]1[/red]'', ''[red]missing[/red]''),
        (''VirtualEthAdapter_0_VirtualSlotNumber'', ''[red]2[/red]'', ''[red]missing[/red]''),
        (''VirtualEthAdapter_0_VirtualSwitchName'', ''[green]missing[/green]'',
         ''[green]missing[/green]'')]"
  by code_simp

section \<open>Properties of the session\<close>

lemma send_answered:
  "serve e (world st) req = (Some response, w) \<Longrightarrow>
   send e req st = (Inr response, st\<lparr>world := w, sent := sent st @ [req]\<rparr>)"
  by (simp add: send_def Let_def)

text \<open>
  Claim C9, as amended. When the logon request of a session that is not connected is
  answered with a status other than 200, \<^verbatim>\<open>logon\<close> leaves by \<^verbatim>\<open>sys.exit\<close> with that
  status, and so does the constructor. No token is stored and \<^verbatim>\<open>connected\<close> stays false.
  The object is not as it was before, though: \<^verbatim>\<open>hmc_name\<close>, assigned before the
  request is sent, holds the name of the HMC; nothing else of it has changed.
\<close>

theorem logon_rejected:
  assumes "\<not> connected self"
      and "serve e (world st) (logon_request hmc user passwd) = (Some response, w)"
      and "status_code response \<noteq> 200"
  shows "logon e hmc user passwd self st =
           (Inl (SystemExit (Some (status_code response))),
            self\<lparr>hmc_name := hmc\<rparr>,
            st\<lparr>world := w, sent := sent st @ [logon_request hmc user passwd],
               console := console st @ [Line ''[red]Error: HMC logon failed[/red]'']\<rparr>) \<and>
         token (fst (snd (logon e hmc user passwd self st))) = token self \<and>
         connected (fst (snd (logon e hmc user passwd self st))) = False \<and>
         hmc_name (fst (snd (logon e hmc user passwd self st))) = hmc \<and>
         ssl_verify (fst (snd (logon e hmc user passwd self st))) = ssl_verify self \<and>
         fst (HMC_init e cfg hmc user passwd st) = Inl (SystemExit (Some (status_code response)))"
proof -
  have run: "logon e hmc user passwd self st =
           (Inl (SystemExit (Some (status_code response))),
            self\<lparr>hmc_name := hmc\<rparr>,
            st\<lparr>world := w, sent := sent st @ [logon_request hmc user passwd],
               console := console st @ [Line ''[red]Error: HMC logon failed[/red]'']\<rparr>)"
    using assms by (simp add: logon_def Let_def send_answered console_print_def)
  have new: "logon e hmc user passwd
               \<lparr>hmc_name = [], token = Some [], ssl_verify = cfg_ssl_verify cfg, connected = False\<rparr> st =
           (Inl (SystemExit (Some (status_code response))),
            \<lparr>hmc_name = hmc, token = Some [], ssl_verify = cfg_ssl_verify cfg, connected = False\<rparr>,
            st\<lparr>world := w, sent := sent st @ [logon_request hmc user passwd],
               console := console st @ [Line ''[red]Error: HMC logon failed[/red]'']\<rparr>)"
    using assms(2,3) by (simp add: logon_def Let_def send_answered console_print_def)
  show ?thesis
    using assms(1) by (simp add: run HMC_init_def Let_def new)
qed

theorem logon_rejected_witness:
  "fst (logon example_env ''hmc1'' ''hscroot'' ''wrong'' new_session start) =
     Inl (SystemExit (Some 401)) \<and>
   fst (snd (logon example_env ''hmc1'' ''hscroot'' ''wrong'' new_session start)) =
     new_session\<lparr>hmc_name := ''hmc1''\<rparr> \<and>
   token (fst (snd (logon example_env ''hmc1'' ''hscroot'' ''wrong'' new_session start))) =
     Some [] \<and>
   connected (fst (snd (logon example_env ''hmc1'' ''hscroot'' ''wrong'' new_session start))) =
     False \<and>
   hmc_name (fst (snd (logon example_env ''hmc1'' ''hscroot'' ''wrong'' new_session start))) =
     ''hmc1'' \<and>
   fst (HMC_init example_env example_cfg ''hmc1'' ''hscroot'' ''wrong'' start) =
     Inl (SystemExit (Some 401))"
proof -
  have c: "\<not> connected new_session"
    by (simp add: new_session_def)
  have s: "serve example_env (world start) (logon_request ''hmc1'' ''hscroot'' ''wrong'') =
           (Some \<lparr>status_code = 401, response_text = ''rejected''\<rparr>, ())"
    by code_simp
  have n: "status_code \<lparr>status_code = 401, response_text = ''rejected''\<rparr> \<noteq> 200"
    by simp
  have t: "token new_session = Some []"
    by (simp add: new_session_def)
  show ?thesis
    using c t logon_rejected [OF c s n, of example_cfg] by simp
qed

text \<open>
  Claim C9 as stated fails: after the rejected logon of a new object, the object differs
  from what it was, in its \<^verbatim>\<open>hmc_name\<close>.
\<close>

theorem logon_rejected_state_counterexample:
  "fst (snd (logon example_env ''hmc1'' ''hscroot'' ''wrong'' new_session start)) =
     \<lparr>hmc_name = ''hmc1'', token = Some [], ssl_verify = False, connected = False\<rparr> \<and>
   fst (snd (logon example_env ''hmc1'' ''hscroot'' ''wrong'' new_session start)) \<noteq>
     new_session"
proof -
  have "fst (snd (logon example_env ''hmc1'' ''hscroot'' ''wrong'' new_session start)) =
     \<lparr>hmc_name = ''hmc1'', token = Some [], ssl_verify = False, connected = False\<rparr>"
    by code_simp
  then show ?thesis by (simp add: new_session_def)
qed

text \<open>
  Claim C4, as amended. \<^verbatim>\<open>logoff\<close> on a session that is not connected sends no request
  and leaves the object as it is, but it does not return: \<^verbatim>\<open>check_connected\<close> prints its
  message and leaves the program with exit status 42.
\<close>

theorem logoff_when_not_connected:
  assumes "\<not> connected self"
  shows "logoff e self st =
           (Inl (SystemExit (Some 42)), self,
            st\<lparr>console := console st @
               [Line ''[red]Attempt to logoff when not logged on. Halting![/red]'']\<rparr>) \<and>
         sent (snd (snd (logoff e self st))) = sent st"
  using assms by (simp add: logoff_def check_connected_def console_print_def)

theorem logoff_when_not_connected_witness:
  "logoff example_env closed_session start =
     (Inl (SystemExit (Some 42)), closed_session,
      start\<lparr>console := console start @
         [Line ''[red]Attempt to logoff when not logged on. Halting![/red]'']\<rparr>) \<and>
   sent (snd (snd (logoff example_env closed_session start))) = sent start"
proof -
  have c: "\<not> connected closed_session"
    by (simp add: closed_session_def open_session_def)
  show ?thesis
    by (rule logoff_when_not_connected [OF c])
qed

text \<open>
  Claim C4 as stated fails: the logoff of the closed session of the example does not
  succeed silently, it exits with status 42.
\<close>

theorem logoff_closed_session_counterexample:
  "fst (logoff example_env closed_session start) = Inl (SystemExit (Some 42)) \<and>
   fst (logoff example_env closed_session start) \<noteq> Inr ()"
  by (simp add: logoff_def check_connected_def closed_session_def open_session_def)

text \<open>The exit handler, not \<^verbatim>\<open>logoff\<close>, is what does nothing on a closed session.\<close>

lemma cleanup_when_not_connected: "\<not> connected self \<Longrightarrow> cleanup e self st = st"
  by (simp add: cleanup_def)

text \<open>
  A logoff that returns has closed the session; a logoff that the HMC answers with another
  status than 200, 202 or 204 leaves the program with that status.
\<close>

lemma logoff_success_closes:
  assumes "logoff e self st = (Inr u, self', st')"
  shows "connected self \<and> self' = self\<lparr>connected := False\<rparr>"
  using assms unfolding logoff_def Let_def check_connected_def
  by (auto split: option.splits prod.splits sum.splits if_splits)

lemma logoff_rejected:
  assumes "connected self"
      and "serve e (world st) (logoff_request self) = (Some response, w)"
      and "status_code response \<notin> set [200, 202, 204]"
  shows "fst (logoff e self st) = Inl (SystemExit (Some (status_code response)))"
  using assms by (simp add: logoff_def check_connected_def send_answered Let_def)

section \<open>Properties of get_lpar_config\<close>

text \<open>
  When the search finds the partition and the fetch of its default profile is answered
  with a status other than 200, \<^verbatim>\<open>get_lpar_config\<close> returns 4. The chain of return
  codes of the script knows 1, 2 and 3 only, so a 4 that is left at the end of the loop
  reaches \<^verbatim>\<open>lpar1_data.keys()\<close>.
\<close>

lemma profile_status_gives_4:
  assumes "connected self"
      and "serve e (world st) (search_request self lpar) = (Some r1, w1)"
      and "status_code r1 = 200"
      and "fromstring e (response_text r1) = Some doc"
      and "find_desc doc ''AssociatedPartitionProfile'' = Some p"
      and "map_of (attrib_of p) ''href'' = Some u"
      and "serve e w1 (profile_request self u) = (Some r2, w2)"
      and "status_code r2 \<noteq> 200"
  shows "fst (get_lpar_config e cfg self lpar st) = Inr (PyInt 4)"
  using assms
  by (simp add: get_lpar_config_def check_connected_def send_def Let_def)

lemma unknown_return_code:
  "return_code_message (PyInt 4) (PyDict d) n1 n2 = None \<and> keys_of (PyInt 4) = Inl AttributeError"
  by (simp add: return_code_message_def keys_of_def)

text \<open>
  Claim C5 at a failing input: the partition \<^verbatim>\<open>bad01\<close> of the example, whose default
  profile is answered with status 500, compared with \<^verbatim>\<open>prod01\<close> on the only HMC
  \<^verbatim>\<open>hmc1\<close>. \<^verbatim>\<open>get_lpar_config\<close> returns 4, not 2, and the script ends with an
  AttributeError and without a message, where the claim says that the error is the one
  the script recognises and reports.
\<close>

theorem profile_fetch_failure_returns_4:
  "fst (get_lpar_config example_env example_cfg open_session ''bad01'' start) = Inr (PyInt 4) \<and>
   fst (compare_pair example_env example_cfg [''hmc1''] ''hscroot'' ''abc123'' False
          ''bad01:prod01'' start) = Inl AttributeError \<and>
   console (snd (compare_pair example_env example_cfg [''hmc1''] ''hscroot'' ''abc123'' False
          ''bad01:prod01'' start)) = []"
  by code_simp

text \<open>
  An adapter element without one of the fields of its group ends the extraction with an
  AttributeError, whereas \<open>set_attribs\<close>, the loop of the groups that are no adapters,
  stores \<^verbatim>\<open>None\<close> for an element that is not there.
\<close>

lemma adapter_attribs_missing_field:
  "list_ex (\<lambda>attrib. find_child adapter attrib = None) attribs \<Longrightarrow>
   adapter_attribs prefix index adapter attribs lpardata = Inl AttributeError"
  by (induction attribs arbitrary: lpardata) (auto split: option.splits)

text \<open>
  Claim C6 at a failing input: the partition \<^verbatim>\<open>odd01\<close> of the example, whose network
  adapter has no \<^verbatim>\<open>VirtualSwitchName\<close> element. \<^verbatim>\<open>get_lpar_config\<close> raises
  AttributeError, where the claim says that the extraction completes and the field is
  absent from the record or empty.
\<close>

theorem missing_adapter_field_raises:
  "fst (get_lpar_config example_env example_cfg open_session ''odd01'' start) =
     Inl AttributeError"
  by code_simp

subsection \<open>The requests sent\<close>

lemma send_sent: "send e req st = (r, st') \<Longrightarrow> sent st' = sent st @ [req]"
  by (auto simp: send_def Let_def split: option.splits)

lemma logoff_sent:
  assumes "logoff e self st = (Inr u, self', st')"
  shows "sent st' = sent st @ [logoff_request self]"
proof -
  from assms obtain r where "send e (logoff_request self) st = (r, st')"
    unfolding logoff_def Let_def
    by (auto split: option.splits prod.splits sum.splits if_splits)
  then show ?thesis by (rule send_sent)
qed

lemma logon_sent:
  assumes "logon e hmc user passwd self st = (Inr u, self', st')"
  shows "sent st' = sent st @ [logon_request hmc user passwd] \<and> hmc_name self' = hmc \<and>
         connected self'"
proof -
  from assms have "\<exists>r. send e (logon_request hmc user passwd) st = (r, st')"
    and "hmc_name self' = hmc" and "connected self'"
    unfolding logon_def Let_def
    by (auto split: option.splits prod.splits sum.splits if_splits list.splits)
  then show ?thesis by (auto dest: send_sent)
qed

lemma HMC_init_sent:
  assumes "HMC_init e cfg hmc user passwd st = (Inr self, st')"
  shows "sent st' = sent st @ [logon_request hmc user passwd] \<and> hmc_name self = hmc \<and>
         connected self"
proof -
  from assms obtain u s0 where "logon e hmc user passwd s0 st = (Inr u, self, st')"
    unfolding HMC_init_def Let_def by (auto split: prod.splits sum.splits)
  then show ?thesis by (rule logon_sent)
qed

lemma get_lpar_config_sent:
  assumes "get_lpar_config e cfg self lpar st = (r, st')"
  shows "\<exists>reqs. sent st' = sent st @ reqs"
proof -
  have two: "\<exists>reqs. sent s2 = sent st @ reqs"
    if "send e q1 st = (r1, s1)" and "send e q2 s1 = (r2, s2)" for q1 q2 r1 r2 s1 s2
    using that by (auto dest!: send_sent)
  have one: "\<exists>reqs. sent s1 = sent st @ reqs" if "send e q1 st = (r1, s1)" for q1 r1 s1
    using that by (auto dest!: send_sent)
  have none: "\<exists>reqs. sent (console_print m st) = sent st @ reqs" for m
    by (simp add: console_print_def)
  from assms show ?thesis
    unfolding get_lpar_config_def Let_def check_connected_def
    by (auto split: option.splits prod.splits sum.splits if_splits
             intro: one two none)
qed



section \<open>The keys that get_lpar_config writes\<close>

lemma set_attribs_all:
  assumes "list_all P (dict_keys d)" and "\<And>a. P (prefix @ a)"
  shows "list_all P (dict_keys (set_attribs prefix doc attribs d))"
  using assms(1)
proof (induction attribs arbitrary: d)
  case Nil
  then show ?case by simp
next
  case (Cons a attribs)
  have "list_all P (dict_keys (setitem d (prefix @ a) (attrib_value doc a)))"
    using Cons.prems assms(2) [of a] by (simp add: list_all_iff keys_setitem)
  then show ?case by (simp add: Cons.IH)
qed

lemma adapter_attribs_all:
  assumes "adapter_attribs prefix index adapter attribs d = Inr d'"
      and "list_all P (dict_keys d)" and "\<And>s. P (prefix @ s)"
  shows "list_all P (dict_keys d')"
  using assms(1,2)
proof (induction attribs arbitrary: d)
  case Nil
  then show ?case by simp
next
  case (Cons a attribs)
  from Cons.prems(1) obtain x where
    x: "adapter_attribs prefix index adapter attribs
          (setitem d (prefix @ str_nat index @ ''_'' @ a) (text_of x)) = Inr d'"
    by (auto split: option.splits)
  have "list_all P (dict_keys (setitem d (prefix @ str_nat index @ ''_'' @ a) (text_of x)))"
    using Cons.prems(2) assms(3) [of "str_nat index @ ''_'' @ a"]
    by (simp add: list_all_iff keys_setitem)
  with x show ?case by (rule Cons.IH)
qed

lemma adapters_all:
  assumes "adapters prefix index ads attribs d = Inr d'"
      and "list_all P (dict_keys d)" and "\<And>s. P (prefix @ s)"
  shows "list_all P (dict_keys d')"
  using assms(1,2)
proof (induction ads arbitrary: d index)
  case Nil
  then show ?case by simp
next
  case (Cons a ads)
  from Cons.prems(1) obtain d1 where
    1: "adapter_attribs prefix index a attribs d = Inr d1" and
    2: "adapters prefix (index + 1) ads attribs d1 = Inr d'"
    by (auto split: sum.splits)
  have "list_all P (dict_keys d1)"
    using 1 Cons.prems(2) assms(3) by (rule adapter_attribs_all)
  with 2 show ?case by (rule Cons.IH)
qed

lemma enabled_key_general: "compare_general cfg \<Longrightarrow> enabled_key cfg (''General_'' @ a)"
  by (simp add: enabled_key_def startswith_def)

lemma enabled_key_processor: "compare_processors cfg \<Longrightarrow> enabled_key cfg (''Processor_'' @ a)"
  by (simp add: enabled_key_def startswith_def)

lemma enabled_key_memory: "compare_memory cfg \<Longrightarrow> enabled_key cfg (''Memory_'' @ a)"
  by (simp add: enabled_key_def startswith_def)

lemma enabled_key_veth:
  "compare_networking cfg \<Longrightarrow> enabled_key cfg (''Network_VirtualEthAdapter_'' @ a)"
  by (simp add: enabled_key_def startswith_def)

lemma enabled_key_vfc:
  "compare_virtual_fc cfg \<Longrightarrow> enabled_key cfg (''vFC_VirtualFcAdapter_'' @ a)"
  by (simp add: enabled_key_def startswith_def)

lemma enabled_key_vscsi:
  "compare_virtual_scsi cfg \<Longrightarrow> enabled_key cfg (''vSCSI_VirtualScsiAdapter_'' @ a)"
  by (simp add: enabled_key_def startswith_def)

lemma guarded_set_attribs:
  assumes "list_all P (dict_keys d)" and "\<And>a. flag \<Longrightarrow> P (prefix @ a)"
  shows "list_all P (dict_keys (if flag then set_attribs prefix doc attribs d else d))"
  using assms by (cases flag) (simp_all add: set_attribs_all)

lemma guarded_adapters:
  assumes "(if flag then adapters prefix index ads attribs d else Inr d) = Inr d'"
      and "list_all P (dict_keys d)" and "\<And>s. flag \<Longrightarrow> P (prefix @ s)"
  shows "list_all P (dict_keys d')"
proof (cases flag)
  case True
  with assms(1) have "adapters prefix index ads attribs d = Inr d'" by simp
  then show ?thesis using assms(2) assms(3) [OF True] by (rule adapters_all)
next
  case False
  with assms(1,2) show ?thesis by simp
qed

lemma sum_case_Inr:
  assumes "(case x of Inl err \<Rightarrow> Inl err | Inr v \<Rightarrow> f v) = Inr r"
  obtains v where "x = Inr v" and "f v = Inr r"
  using assms by (cases x) auto

lemma default_profile_keys_enabled:
  assumes "list_all (enabled_key cfg) (dict_keys d)"
      and "default_profile cfg doc d = Inr d'"
  shows "list_all (enabled_key cfg) (dict_keys d')"
proof -
  let ?d1 = "if compare_general cfg
             then set_attribs ''General_'' doc attribs_default_general d else d"
  let ?d2 = "if compare_processors cfg
             then set_attribs ''Processor_'' doc attribs_default_processor ?d1 else ?d1"
  let ?d3 = "if compare_memory cfg
             then set_attribs ''Memory_'' doc attribs_default_memory ?d2 else ?d2"
  have k1: "list_all (enabled_key cfg) (dict_keys ?d1)"
    using assms(1) by (rule guarded_set_attribs) (rule enabled_key_general)
  have k2: "list_all (enabled_key cfg) (dict_keys ?d2)"
    using k1 by (rule guarded_set_attribs) (rule enabled_key_processor)
  have k3: "list_all (enabled_key cfg) (dict_keys ?d3)"
    using k2 by (rule guarded_set_attribs) (rule enabled_key_memory)
  from assms(2) [unfolded default_profile_def Let_def]
  obtain d4 where
    4: "(if compare_networking cfg
         then adapters ''Network_VirtualEthAdapter_'' 0
                (findall_desc doc ''ProfileClientNetworkAdapter'') attribs_default_veth ?d3
         else Inr ?d3) = Inr d4" and
    r4: "(case (if compare_virtual_fc cfg
                then adapters ''vFC_VirtualFcAdapter_'' 0
                       (findall_desc doc ''ProfileVirtualFibreChannelClientAdapter'')
                       attribs_default_vfc d4
                else Inr d4) of
            Inl err \<Rightarrow> Inl err
          | Inr lpardata \<Rightarrow>
              (if compare_virtual_scsi cfg
               then adapters ''vSCSI_VirtualScsiAdapter_'' 0
                      (findall_desc doc ''ProfileVirtualSCSIClientAdapter'')
                      attribs_default_vscsi lpardata
               else Inr lpardata)) = Inr d'"
    by (rule sum_case_Inr)
  from r4 obtain d5 where
    5: "(if compare_virtual_fc cfg
         then adapters ''vFC_VirtualFcAdapter_'' 0
                (findall_desc doc ''ProfileVirtualFibreChannelClientAdapter'')
                attribs_default_vfc d4
         else Inr d4) = Inr d5" and
    6: "(if compare_virtual_scsi cfg
         then adapters ''vSCSI_VirtualScsiAdapter_'' 0
                (findall_desc doc ''ProfileVirtualSCSIClientAdapter'') attribs_default_vscsi d5
         else Inr d5) = Inr d'"
    by (rule sum_case_Inr)
  have k4: "list_all (enabled_key cfg) (dict_keys d4)"
    using 4 k3 by (rule guarded_adapters) (rule enabled_key_veth)
  have k5: "list_all (enabled_key cfg) (dict_keys d5)"
    using 5 k4 by (rule guarded_adapters) (rule enabled_key_vfc)
  show ?thesis
    using 6 k5 by (rule guarded_adapters) (rule enabled_key_vscsi)
qed

lemma get_lpar_config_dict:
  assumes "get_lpar_config e cfg self lpar st = (Inr (PyDict d), st')"
  shows "\<exists>doc doc2. default_profile cfg doc2
           (if compare_general cfg then set_attribs ''General_'' doc attribs_general_general []
            else []) = Inr d"
  using assms unfolding get_lpar_config_def Let_def
  by (simp split: option.splits prod.splits sum.splits if_splits) blast+

lemma get_lpar_config_keys_enabled:
  assumes "get_lpar_config e cfg self lpar st = (Inr (PyDict d), st')"
  shows "list_all (enabled_key cfg) (dict_keys d)"
proof -
  from get_lpar_config_dict [OF assms] obtain doc doc2 where
    d: "default_profile cfg doc2
       (if compare_general cfg then set_attribs ''General_'' doc attribs_general_general []
        else []) = Inr d"
    by blast
  have "list_all (enabled_key cfg)
     (dict_keys (if compare_general cfg
                 then set_attribs ''General_'' doc attribs_general_general [] else []))"
    by (rule guarded_set_attribs) (simp add: dict_keys_def, rule enabled_key_general)
  then show ?thesis using d by (rule default_profile_keys_enabled)
qed

lemma enabled_key_take2:
  assumes "enabled_key cfg k"
  shows "(compare_general cfg \<and> take 2 k = ''Ge'') \<or>
         (compare_processors cfg \<and> take 2 k = ''Pr'') \<or>
         (compare_memory cfg \<and> take 2 k = ''Me'') \<or>
         (compare_networking cfg \<and> take 2 k = ''Ne'') \<or>
         (compare_virtual_fc cfg \<and> take 2 k = ''vF'') \<or>
         (compare_virtual_scsi cfg \<and> take 2 k = ''vS'')"
proof -
  have "startswith k ''General_'' \<Longrightarrow> take 2 k = ''Ge''"
       "startswith k ''Processor_'' \<Longrightarrow> take 2 k = ''Pr''"
       "startswith k ''Memory_'' \<Longrightarrow> take 2 k = ''Me''"
       "startswith k ''Network_'' \<Longrightarrow> take 2 k = ''Ne''"
       "startswith k ''vFC_'' \<Longrightarrow> take 2 k = ''vF''"
       "startswith k ''vSCSI_'' \<Longrightarrow> take 2 k = ''vS''"
    by (drule startswith_take2, simp, simp)+
  with assms show ?thesis unfolding enabled_key_def by blast
qed

lemma group_prefix_take2:
  assumes "startswith k (group_prefix g)"
  shows "take 2 k = take 2 (group_prefix g)"
  using assms by (rule startswith_take2) (cases g; simp add: group_prefix_def)

lemma enabled_key_group:
  assumes "enabled_key cfg k" and "startswith k (group_prefix g)"
  shows "extraction_flag cfg g"
  using enabled_key_take2 [OF assms(1)] group_prefix_take2 [OF assms(2)]
  by (cases g) (simp_all add: extraction_flag_def group_prefix_def)

text \<open>
  Claim C8. When the extraction of a group is disabled, no key of the dictionary that
  \<^verbatim>\<open>get_lpar_config\<close> returns starts with the prefix of that group, whatever the two
  documents hold.
\<close>

theorem disabled_group_has_no_key:
  assumes "get_lpar_config e cfg self lpar st = (Inr (PyDict lpardata), st')"
      and "\<not> extraction_flag cfg g"
  shows "\<forall>k \<in> set (dict_keys lpardata). \<not> startswith k (group_prefix g)"
  using get_lpar_config_keys_enabled [OF assms(1)] assms(2)
  by (auto simp: list_all_iff dest: enabled_key_group)

theorem disabled_group_has_no_key_witness:
  "get_lpar_config example_env example_cfg open_session ''prod01'' (after 2) =
     (Inr (PyDict prod01_data), after 4) \<and>
   attrib_value prod01_default ''SharingMode'' = Some ''uncapped'' \<and>
   \<not> extraction_flag example_cfg Processor \<and>
   list_all (\<lambda>k. \<not> startswith k (group_prefix Processor)) (dict_keys prod01_data)"
proof -
  have run: "get_lpar_config example_env example_cfg open_session ''prod01'' (after 2) =
     (Inr (PyDict prod01_data), after 4)"
    by code_simp
  have doc: "attrib_value prod01_default ''SharingMode'' = Some ''uncapped''"
    by code_simp
  have off: "\<not> extraction_flag example_cfg Processor"
    by (simp add: extraction_flag_def example_cfg_def)
  from disabled_group_has_no_key [OF run off] run doc off show ?thesis
    by (simp add: list_all_iff)
qed

section \<open>The loop over the HMCs\<close>

text \<open>One turn of the loop, written out: what the second equation of \<open>scan_hmcs\<close> does
  when the logon, the two queries and the logoff all return.\<close>

lemma scan_hmcs_turn:
  assumes "\<not> (is_dict l1 \<and> is_dict l2)"
      and "HMC_init e cfg h user pw st = (Inr hmc, st1)"
      and "(if \<not> is_dict l1 then get_lpar_config e cfg hmc n1 st1 else (Inr l1, st1)) =
           (Inr l1', st2)"
      and "(if \<not> is_dict l2 then get_lpar_config e cfg hmc n2 st2 else (Inr l2, st2)) =
           (Inr l2', st3)"
      and "logoff e hmc st3 = (Inr u, hmc', st4)"
  shows "scan_hmcs e cfg user pw n1 n2 (h # hs) (l1, l2) st =
         scan_hmcs e cfg user pw n1 n2 hs (l1', l2') st4"
proof -
  from assms(1) have nd: "(is_dict l1 \<and> is_dict l2) = False" by simp
  show ?thesis
    by (simp only: scan_hmcs.simps fst_conv snd_conv nd if_False assms(2-5)
                   prod.case sum.case)
qed

lemma bind2E:
  assumes "(case m of (Inl err, s) \<Rightarrow> (Inl err, s) | (Inr v, s) \<Rightarrow> f v s) = (Inr r, s')"
  obtains v s where "m = (Inr v, s)" and "f v s = (Inr r, s')"
proof (cases m)
  case (Pair a s)
  with assms show ?thesis by (cases a) (auto intro: that)
qed

lemma bind3E:
  assumes "(case m of (Inl err, h, s) \<Rightarrow> (Inl err, s) | (Inr u, h, s) \<Rightarrow> f s) = (Inr r, s')"
  obtains h s where "m = (Inr (), h, s)" and "f s = (Inr r, s')"
proof (cases m)
  case (fields a h s)
  with assms show ?thesis by (cases a) (auto intro: that)
qed

lemma scan_hmcs_turnE:
  assumes "scan_hmcs e cfg user pw n1 n2 (h # hs) (l1, l2) st = (Inr r, st')"
      and "\<not> (is_dict l1 \<and> is_dict l2)"
  obtains hmc st1 l1' st2 l2' st3 hmc' st4 where
      "HMC_init e cfg h user pw st = (Inr hmc, st1)"
      "(if \<not> is_dict l1 then get_lpar_config e cfg hmc n1 st1 else (Inr l1, st1)) =
           (Inr l1', st2)"
      "(if \<not> is_dict l2 then get_lpar_config e cfg hmc n2 st2 else (Inr l2, st2)) =
           (Inr l2', st3)"
      "logoff e hmc st3 = (Inr (), hmc', st4)"
      "scan_hmcs e cfg user pw n1 n2 hs (l1', l2') st4 = (Inr r, st')"
proof -
  from assms(2) have nd: "(is_dict l1 \<and> is_dict l2) = False" by simp
  show ?thesis
    apply (insert assms(1))
    apply (simp only: scan_hmcs.simps fst_conv snd_conv nd if_False)
    apply (erule bind2E)
    apply (erule bind2E)
    apply (erule bind2E)
    apply (erule bind3E)
    apply (rule that; assumption)
    done
qed

text \<open>A dictionary, once found, is kept to the end of the loop.\<close>

lemma scan_hmcs_keeps_dict:
  assumes "scan_hmcs e cfg user pw n1 n2 hs (l1, l2) st = (Inr (r1, r2), st')"
  shows "(is_dict l1 \<longrightarrow> r1 = l1) \<and> (is_dict l2 \<longrightarrow> r2 = l2)"
  using assms
proof (induction hs arbitrary: l1 l2 st)
  case Nil
  then show ?case by simp
next
  case (Cons h hs)
  show ?case
  proof (cases "is_dict l1 \<and> is_dict l2")
    case True
    with Cons.prems show ?thesis by simp
  next
    case False
    from Cons.prems False obtain hmc st1 l1' st2 l2' st3 hmc' st4 where
      2: "(if \<not> is_dict l1 then get_lpar_config e cfg hmc n1 st1 else (Inr l1, st1)) =
           (Inr l1', st2)" and
      3: "(if \<not> is_dict l2 then get_lpar_config e cfg hmc n2 st2 else (Inr l2, st2)) =
           (Inr l2', st3)" and
      5: "scan_hmcs e cfg user pw n1 n2 hs (l1', l2') st4 = (Inr (r1, r2), st')"
      by (rule scan_hmcs_turnE)
    from Cons.IH [OF 5] 2 3 show ?thesis
      by (auto split: if_splits)
  qed
qed

text \<open>
  When the loop ends with something else than a dictionary for a name, this is what
  \<open>get_lpar_config\<close> returned for that name on the last HMC of the list.
\<close>

lemma scan_hmcs_last_outcome:
  assumes "scan_hmcs e cfg user pw n1 n2 hs (l1, l2) st = (Inr (r1, r2), st')"
      and "hs \<noteq> []"
  shows "(\<not> is_dict r1 \<longrightarrow>
            (\<exists>hmc sa sb. hmc_name hmc = last hs \<and>
                          get_lpar_config e cfg hmc n1 sa = (Inr r1, sb))) \<and>
         (\<not> is_dict r2 \<longrightarrow>
            (\<exists>hmc sa sb. hmc_name hmc = last hs \<and>
                          get_lpar_config e cfg hmc n2 sa = (Inr r2, sb)))"
  using assms
proof (induction hs arbitrary: l1 l2 st)
  case Nil
  then show ?case by simp
next
  case (Cons h hs)
  show ?case
  proof (cases "is_dict l1 \<and> is_dict l2")
    case True
    with Cons.prems(1) show ?thesis by simp
  next
    case False
    from Cons.prems(1) False obtain hmc st1 l1' st2 l2' st3 hmc' st4 where
      1: "HMC_init e cfg h user pw st = (Inr hmc, st1)" and
      2: "(if \<not> is_dict l1 then get_lpar_config e cfg hmc n1 st1 else (Inr l1, st1)) =
           (Inr l1', st2)" and
      3: "(if \<not> is_dict l2 then get_lpar_config e cfg hmc n2 st2 else (Inr l2, st2)) =
           (Inr l2', st3)" and
      5: "scan_hmcs e cfg user pw n1 n2 hs (l1', l2') st4 = (Inr (r1, r2), st')"
      by (rule scan_hmcs_turnE)
    show ?thesis
    proof (cases "hs = []")
      case True
      with 5 have r: "r1 = l1'" "r2 = l2'" by simp_all
      have name: "hmc_name hmc = last (h # hs)"
        using HMC_init_sent [OF 1] True by simp
      from 2 3 r name show ?thesis
        by (auto split: if_splits simp: is_dict_def)
    next
      case False
      with Cons.IH [OF 5] show ?thesis by simp
    qed
  qed
qed

text \<open>
  Claim C7, as amended. Two HMCs \<open>h1\<close> and \<open>h2\<close>, on both of which the logon and the
  logoff succeed and the queries return. \<open>a1\<close> and \<open>b1\<close> are what the queries for the two
  names return on \<open>h1\<close>, not both of them a dictionary; \<open>a2\<close> and \<open>b2\<close> are, for a name
  that has no dictionary yet, what its query on \<open>h2\<close> returns, and for the other name the
  dictionary found on \<open>h1\<close>. Then the loop returns \<open>a2\<close> and \<open>b2\<close>: for either name of the
  pair, an outcome on \<open>h1\<close> that is no dictionary (say 1, not found) is replaced by the
  outcome on \<open>h2\<close>, a dictionary or the last return code. The session on \<open>h1\<close> is opened by
  the first request, and it is closed, its logoff request sent directly before the logon
  request to \<open>h2\<close> and after everything sent to \<open>h1\<close>. For a list of HMCs of any length,
  a result of the loop that is no dictionary is what the query on the last HMC returned.
\<close>

theorem failover_search:
  assumes "HMC_init e cfg h1 user pw st0 = (Inr hmc1, st1)"
      and "get_lpar_config e cfg hmc1 n1 st1 = (Inr a1, st2)"
      and "get_lpar_config e cfg hmc1 n2 st2 = (Inr b1, st3)"
      and "\<not> (is_dict a1 \<and> is_dict b1)"
      and "logoff e hmc1 st3 = (Inr (), hmc1', st4)"
      and "HMC_init e cfg h2 user pw st4 = (Inr hmc2, st5)"
      and "(if is_dict a1 then (Inr a1, st5) else get_lpar_config e cfg hmc2 n1 st5) =
           (Inr a2, st6)"
      and "(if is_dict b1 then (Inr b1, st6) else get_lpar_config e cfg hmc2 n2 st6) =
           (Inr b2, st7)"
      and "logoff e hmc2 st7 = (Inr (), hmc2', st8)"
  shows "scan_hmcs e cfg user pw n1 n2 [h1, h2] (PyNone, PyNone) st0 = (Inr (a2, b2), st8) \<and>
         (is_dict a1 \<longrightarrow> a2 = a1) \<and> (is_dict b1 \<longrightarrow> b2 = b1) \<and>
         hmc_name hmc1 = h1 \<and> connected hmc1 \<and> hmc1' = hmc1\<lparr>connected := False\<rparr> \<and>
         hmc_name hmc2 = h2 \<and> connected hmc2 \<and> hmc2' = hmc2\<lparr>connected := False\<rparr> \<and>
         sent st1 = sent st0 @ [logon_request h1 user pw] \<and>
         (\<exists>during. sent st3 = sent st1 @ during) \<and>
         (\<exists>rest. sent st8 =
            sent st3 @ [logoff_request hmc1, logon_request h2 user pw] @ rest) \<and>
         (\<forall>hs st r1 r2 st'.
            scan_hmcs e cfg user pw n1 n2 hs (PyNone, PyNone) st = (Inr (r1, r2), st') \<and>
            hs \<noteq> [] \<longrightarrow>
            (\<not> is_dict r1 \<longrightarrow>
               (\<exists>hmc sa sb. hmc_name hmc = last hs \<and>
                  get_lpar_config e cfg hmc n1 sa = (Inr r1, sb))) \<and>
            (\<not> is_dict r2 \<longrightarrow>
               (\<exists>hmc sa sb. hmc_name hmc = last hs \<and>
                  get_lpar_config e cfg hmc n2 sa = (Inr r2, sb))))"
proof -
  have none: "\<not> (is_dict PyNone \<and> is_dict PyNone)"
    by (simp add: is_dict_def)
  have g1: "(if \<not> is_dict PyNone then get_lpar_config e cfg hmc1 n1 st1
             else (Inr PyNone, st1)) = (Inr a1, st2)"
    using assms(2) by (simp add: is_dict_def)
  have g2: "(if \<not> is_dict PyNone then get_lpar_config e cfg hmc1 n2 st2
             else (Inr PyNone, st2)) = (Inr b1, st3)"
    using assms(3) by (simp add: is_dict_def)
  have t1: "scan_hmcs e cfg user pw n1 n2 [h1, h2] (PyNone, PyNone) st0 =
            scan_hmcs e cfg user pw n1 n2 [h2] (a1, b1) st4"
    by (rule scan_hmcs_turn [OF none assms(1) g1 g2 assms(5)])
  have g3: "(if \<not> is_dict a1 then get_lpar_config e cfg hmc2 n1 st5
             else (Inr a1, st5)) = (Inr a2, st6)"
    using assms(7) by (cases "is_dict a1") simp_all
  have g4: "(if \<not> is_dict b1 then get_lpar_config e cfg hmc2 n2 st6
             else (Inr b1, st6)) = (Inr b2, st7)"
    using assms(8) by (cases "is_dict b1") simp_all
  have t2: "scan_hmcs e cfg user pw n1 n2 [h2] (a1, b1) st4 =
            scan_hmcs e cfg user pw n1 n2 [] (a2, b2) st8"
    by (rule scan_hmcs_turn [OF assms(4) assms(6) g3 g4 assms(9)])
  have run: "scan_hmcs e cfg user pw n1 n2 [h1, h2] (PyNone, PyNone) st0 =
             (Inr (a2, b2), st8)"
    by (simp only: t1 t2 scan_hmcs.simps(1))
  have kept: "(is_dict a1 \<longrightarrow> a2 = a1) \<and> (is_dict b1 \<longrightarrow> b2 = b1)"
    using assms(7,8) by auto
  have o1: "hmc_name hmc1 = h1" "connected hmc1" "sent st1 = sent st0 @ [logon_request h1 user pw]"
    using HMC_init_sent [OF assms(1)] by simp_all
  have c1: "hmc1' = hmc1\<lparr>connected := False\<rparr>"
    using logoff_success_closes [OF assms(5)] by simp
  have o2: "hmc_name hmc2 = h2" "connected hmc2" "sent st5 = sent st4 @ [logon_request h2 user pw]"
    using HMC_init_sent [OF assms(6)] by simp_all
  have c2: "hmc2' = hmc2\<lparr>connected := False\<rparr>"
    using logoff_success_closes [OF assms(9)] by simp
  obtain r2 where s2: "sent st2 = sent st1 @ r2"
    using get_lpar_config_sent [OF assms(2)] by blast
  obtain r3 where s3: "sent st3 = sent st2 @ r3"
    using get_lpar_config_sent [OF assms(3)] by blast
  have during: "\<exists>during. sent st3 = sent st1 @ during"
    by (simp add: s2 s3)
  have s4: "sent st4 = sent st3 @ [logoff_request hmc1]"
    using assms(5) by (rule logoff_sent)
  obtain r6 where s6: "sent st6 = sent st5 @ r6"
  proof (cases "is_dict a1")
    case True
    with assms(7) have "sent st6 = sent st5 @ []" by simp
    then show ?thesis by (rule that)
  next
    case False
    with assms(7) have "get_lpar_config e cfg hmc2 n1 st5 = (Inr a2, st6)" by simp
    from get_lpar_config_sent [OF this] show ?thesis using that by blast
  qed
  obtain r7 where s7: "sent st7 = sent st6 @ r7"
  proof (cases "is_dict b1")
    case True
    with assms(8) have "sent st7 = sent st6 @ []" by simp
    then show ?thesis by (rule that)
  next
    case False
    with assms(8) have "get_lpar_config e cfg hmc2 n2 st6 = (Inr b2, st7)" by simp
    from get_lpar_config_sent [OF this] show ?thesis using that by blast
  qed
  have s8: "sent st8 = sent st7 @ [logoff_request hmc2]"
    using assms(9) by (rule logoff_sent)
  have trace: "\<exists>rest. sent st8 =
                 sent st3 @ [logoff_request hmc1, logon_request h2 user pw] @ rest"
    by (simp add: s4 o2(3) s6 s7 s8)
  have last: "(\<not> is_dict r1 \<longrightarrow>
               (\<exists>hmc sa sb. hmc_name hmc = last hs \<and>
                  get_lpar_config e cfg hmc n1 sa = (Inr r1, sb))) \<and>
            (\<not> is_dict r2 \<longrightarrow>
               (\<exists>hmc sa sb. hmc_name hmc = last hs \<and>
                  get_lpar_config e cfg hmc n2 sa = (Inr r2, sb)))"
    if "scan_hmcs e cfg user pw n1 n2 hs (PyNone, PyNone) st = (Inr (r1, r2), st')"
      and "hs \<noteq> []" for hs st r1 r2 st'
    using that by (rule scan_hmcs_last_outcome)
  from run kept o1 c1 o2(1,2) c2 during trace last show ?thesis by blast
qed

theorem failover_search_witness:
  "scan_hmcs example_env example_cfg ''hscroot'' ''abc123'' ''dr01'' ''prod01''
     [''hmc1'', ''hmc2''] (PyNone, PyNone) start =
     (Inr (PyDict dr01_data, PyDict prod01_data), after 9) \<and>
   get_lpar_config example_env example_cfg open_session ''dr01'' (after 1) =
     (Inr (PyInt 1), after 2) \<and>
   get_lpar_config example_env example_cfg open_session2 ''dr01'' (after 6) =
     (Inr (PyDict dr01_data), after 8) \<and>
   scan_hmcs example_env example_cfg ''hscroot'' ''abc123'' ''prod01'' ''dr01''
     [''hmc1'', ''hmc2''] (PyNone, PyNone) start =
     (Inr (PyDict prod01_data, PyDict dr01_data), swapped_after 9) \<and>
   get_lpar_config example_env example_cfg open_session ''dr01'' (swapped_after 3) =
     (Inr (PyInt 1), swapped_after 4) \<and>
   get_lpar_config example_env example_cfg open_session2 ''dr01'' (swapped_after 6) =
     (Inr (PyDict dr01_data), swapped_after 8) \<and>
   closed_session = open_session\<lparr>connected := False\<rparr> \<and>
   sent (after 9) =
     sent (after 4) @ [logoff_request open_session, logon_request ''hmc2'' ''hscroot'' ''abc123'']
     @ drop 6 example_trace \<and>
   sent (swapped_after 9) =
     sent (swapped_after 4) @
     [logoff_request open_session, logon_request ''hmc2'' ''hscroot'' ''abc123'']
     @ drop 6 swapped_trace"
proof -
  have h1: "HMC_init example_env example_cfg ''hmc1'' ''hscroot'' ''abc123'' start =
            (Inr open_session, after 1)"
    by code_simp
  have h2: "get_lpar_config example_env example_cfg open_session ''dr01'' (after 1) =
            (Inr (PyInt 1), after 2)"
    by code_simp
  have h3: "get_lpar_config example_env example_cfg open_session ''prod01'' (after 2) =
            (Inr (PyDict prod01_data), after 4)"
    by code_simp
  have h4: "\<not> (is_dict (PyInt 1) \<and> is_dict (PyDict prod01_data))"
    by (simp add: is_dict_def)
  have h5: "logoff example_env open_session (after 4) = (Inr (), closed_session, after 5)"
    by code_simp
  have h6: "HMC_init example_env example_cfg ''hmc2'' ''hscroot'' ''abc123'' (after 5) =
            (Inr open_session2, after 6)"
    by code_simp
  have q7: "get_lpar_config example_env example_cfg open_session2 ''dr01'' (after 6) =
            (Inr (PyDict dr01_data), after 8)"
    by code_simp
  have h7: "(if is_dict (PyInt 1) then (Inr (PyInt 1), after 6)
             else get_lpar_config example_env example_cfg open_session2 ''dr01'' (after 6)) =
            (Inr (PyDict dr01_data), after 8)"
    by (simp add: is_dict_def q7)
  have h8: "(if is_dict (PyDict prod01_data) then (Inr (PyDict prod01_data), after 8)
             else get_lpar_config example_env example_cfg open_session2 ''prod01'' (after 8)) =
            (Inr (PyDict prod01_data), after 8)"
    by (simp add: is_dict_def)
  have h9: "logoff example_env open_session2 (after 8) =
            (Inr (), open_session2\<lparr>connected := False\<rparr>, after 9)"
    by code_simp
  have tr: "sent (after 9) =
     sent (after 4) @ [logoff_request open_session, logon_request ''hmc2'' ''hscroot'' ''abc123'']
     @ drop 6 example_trace"
    by (simp add: after_def example_trace_def)
  have k1: "HMC_init example_env example_cfg ''hmc1'' ''hscroot'' ''abc123'' start =
            (Inr open_session, swapped_after 1)"
    by code_simp
  have k2: "get_lpar_config example_env example_cfg open_session ''prod01'' (swapped_after 1) =
            (Inr (PyDict prod01_data), swapped_after 3)"
    by code_simp
  have k3: "get_lpar_config example_env example_cfg open_session ''dr01'' (swapped_after 3) =
            (Inr (PyInt 1), swapped_after 4)"
    by code_simp
  have k4: "\<not> (is_dict (PyDict prod01_data) \<and> is_dict (PyInt 1))"
    by (simp add: is_dict_def)
  have k5: "logoff example_env open_session (swapped_after 4) =
            (Inr (), closed_session, swapped_after 5)"
    by code_simp
  have k6: "HMC_init example_env example_cfg ''hmc2'' ''hscroot'' ''abc123'' (swapped_after 5) =
            (Inr open_session2, swapped_after 6)"
    by code_simp
  have k7: "(if is_dict (PyDict prod01_data) then (Inr (PyDict prod01_data), swapped_after 6)
             else get_lpar_config example_env example_cfg open_session2 ''prod01''
                    (swapped_after 6)) =
            (Inr (PyDict prod01_data), swapped_after 6)"
    by (simp add: is_dict_def)
  have q8: "get_lpar_config example_env example_cfg open_session2 ''dr01'' (swapped_after 6) =
            (Inr (PyDict dr01_data), swapped_after 8)"
    by code_simp
  have k8: "(if is_dict (PyInt 1) then (Inr (PyInt 1), swapped_after 6)
             else get_lpar_config example_env example_cfg open_session2 ''dr01''
                    (swapped_after 6)) =
            (Inr (PyDict dr01_data), swapped_after 8)"
    by (simp add: is_dict_def q8)
  have k9: "logoff example_env open_session2 (swapped_after 8) =
            (Inr (), open_session2\<lparr>connected := False\<rparr>, swapped_after 9)"
    by code_simp
  have tr2: "sent (swapped_after 9) =
     sent (swapped_after 4) @
     [logoff_request open_session, logon_request ''hmc2'' ''hscroot'' ''abc123'']
     @ drop 6 swapped_trace"
    by (simp add: swapped_after_def swapped_trace_def)
  note first = failover_search [OF h1 h2 h3 h4 h5 h6 h7 h8 h9]
  note second = failover_search [OF k1 k2 k3 k4 k5 k6 k7 k8 k9]
  have closed: "closed_session = open_session\<lparr>connected := False\<rparr>"
    using first by (elim conjE)
  show ?thesis
    by (intro conjI first [THEN conjunct1] second [THEN conjunct1] h2 q7 k3 q8 closed tr tr2)
qed

text \<open>
  Claim C7 as stated fails, without the condition on the logoff: \<^verbatim>\<open>dr01\<close> is not found
  on \<^verbatim>\<open>hmc1\<close> and found on \<^verbatim>\<open>hmc3\<close>, but \<^verbatim>\<open>hmc3\<close> answers the logoff with status
  500, \<^verbatim>\<open>logoff\<close> leaves the program with that status, and the loop returns no outcome.
\<close>

theorem failover_logoff_rejected_counterexample:
  "get_lpar_config example_env example_cfg open_session ''dr01'' (after 1) =
     (Inr (PyInt 1), after 2) \<and>
   HMC_init example_env example_cfg ''hmc3'' ''hscroot'' ''abc123'' (after 5) =
     (Inr open_session3, on_hmc3) \<and>
   fst (get_lpar_config example_env example_cfg open_session3 ''dr01'' on_hmc3) =
     Inr (PyDict dr01_data) \<and>
   fst (scan_hmcs example_env example_cfg ''hscroot'' ''abc123'' ''dr01'' ''prod01''
          [''hmc1'', ''hmc3''] (PyNone, PyNone) start) = Inl (SystemExit (Some 500))"
  by code_simp

end
